theory Spec2Isabelle
  imports Complex_Main "HOL-Library.AList"
begin

section \<open>JavaScript values and string primitives\<close>

text \<open>
  The TypeScript sources type several fields as \<open>any\<close> (a memory entry's content, a tool's
  result, a knowledge node's properties). Such a value is a JSON value here. The built-in
  \<open>JSON.stringify\<close> is not code of the repository: every function that calls it takes it as
  the parameter \<open>sfy\<close>, a total function, since a JSON value is a finite tree and the
  built-in throws on cyclic structures and big integers only.

  A \<open>string\<close> is a list of 8-bit characters. The regular expression class \<open>\W\<close> is every
  character outside \<open>[A-Za-z0-9_]\<close>, so every byte of a non-ASCII character separates tokens,
  as the character itself does in JavaScript. Numbers of type \<open>number\<close> that hold a ratio
  (relevance scores) are rationals: a quotient of two token counts and the constants 0.3
  and 0.4 compare as rationals exactly as the IEEE doubles do for any string a JavaScript
  engine can hold.
\<close>

datatype json =
    JNull
  | JBool bool
  | JNum int
  | JStr string
  | JArr "json list"
  | JObj "(string \<times> json) list"

definition isWordChar :: "char \<Rightarrow> bool" where
  "isWordChar c =
     (c \<in> set ''abcdefghijklmnopqrstuvwxyzABCDEFGHIJKLMNOPQRSTUVWXYZ0123456789_'')"

definition lowerChar :: "char \<Rightarrow> char" where
  "lowerChar c =
     (case map_of (zip ''ABCDEFGHIJKLMNOPQRSTUVWXYZ'' ''abcdefghijklmnopqrstuvwxyz'') c of
        Some l \<Rightarrow> l
      | None \<Rightarrow> c)"

definition toLowerCase :: "string \<Rightarrow> string" where
  "toLowerCase s = map lowerChar s"

text \<open>
  \<open>s.split(/\W+/)\<close>: the pieces of \<open>s\<close> between maximal runs of non-word characters. A
  separator at either end of the string leaves an empty piece there, and the empty string
  splits into one empty piece. \<open>splitW cur s\<close> reads a piece, \<open>cur\<close> being the part of it
  already read; \<open>skipW\<close> reads a run of separators.
\<close>

fun splitW :: "string \<Rightarrow> string \<Rightarrow> string list"
  and skipW :: "string \<Rightarrow> string list" where
  "splitW cur [] = [cur]"
| "splitW cur (c # cs) = (if isWordChar c then splitW (cur @ [c]) cs else cur # skipW cs)"
| "skipW [] = [[]]"
| "skipW (c # cs) = (if isWordChar c then splitW [c] cs else skipW cs)"

definition split_nonword :: "string \<Rightarrow> string list" where
  "split_nonword s = splitW [] s"

text \<open>\<open>xs.includes(x)\<close> on an array, and \<open>s.includes(t)\<close> on strings (substring test).\<close>

definition arr_includes :: "'a list \<Rightarrow> 'a \<Rightarrow> bool" where
  "arr_includes xs x = (x \<in> set xs)"

fun str_includes :: "string \<Rightarrow> string \<Rightarrow> bool" where
  "str_includes [] t = (t = [])"
| "str_includes (c # cs) t = (take (length t) (c # cs) = t \<or> str_includes cs t)"

text \<open>Decimal rendering of a natural number, as a template literal renders it.\<close>

fun show_nat :: "nat \<Rightarrow> string" where
  "show_nat n =
     (if n < 10 then [''0123456789'' ! n]
      else show_nat (n div 10) @ [''0123456789'' ! (n mod 10)])"

declare show_nat.simps [simp del]

text \<open>\<open>Array.from(new Set(xs))\<close>: the distinct elements in order of first occurrence.\<close>

fun dedup :: "'a list \<Rightarrow> 'a list \<Rightarrow> 'a list" where
  "dedup seen [] = seen"
| "dedup seen (x # xs) = (if x \<in> set seen then dedup seen xs else dedup (seen @ [x]) xs)"

text \<open>\<open>xs.join(sep)\<close>.\<close>

fun join :: "string \<Rightarrow> string list \<Rightarrow> string" where
  "join sep [] = []"
| "join sep [x] = x"
| "join sep (x # y # ys) = x @ sep @ join sep (y # ys)"

section \<open>Requests and responses (agent-orchestrator.ts)\<close>

datatype request_type = Chat | Command | Analysis | Refactor | Debug | Test

record request_context =
  filePath :: "string option"
  selection :: "string option"
  workspace :: "string option"
  language :: "string option"

record request_options =
  opt_model :: "string option"
  opt_provider :: "string option"
  opt_streaming :: "bool option"
  opt_timeout :: "nat option"

record agent_request =
  req_id :: string
  req_type :: request_type
  req_content :: string
  req_context :: "request_context option"
  req_options :: "request_options option"

record tool_result =
  tr_name :: string
  tr_result :: json
  tr_error :: "string option"
  tr_duration :: nat

record response_metadata =
  meta_model :: string
  meta_provider :: string
  meta_tokens :: nat
  meta_duration :: nat

record agent_response =
  resp_id :: string
  resp_requestId :: string
  resp_content :: string
  resp_tools :: "tool_result list option"
  resp_error :: "string option"
  resp_metadata :: "response_metadata option"

text \<open>
  A thrown value: an \<open>Error\<close> object with its message, or any other value. The handlers of
  the source tell the two apart with \<open>error instanceof Error\<close>.
\<close>

datatype thrown = Error string | NotAnError

text \<open>
  A JavaScript condition on an optional string, \<open>if (s)\<close>: false for \<open>undefined\<close> and for
  the empty string.
\<close>

fun truthy :: "string option \<Rightarrow> bool" where
  "truthy None = False"
| "truthy (Some s) = (s \<noteq> [])"

section \<open>The memory system (memory-system.ts)\<close>

datatype entry_type = Conversation | Knowledge | Pattern | Context

fun entry_type_str :: "entry_type \<Rightarrow> string" where
  "entry_type_str Conversation = ''conversation''"
| "entry_type_str Knowledge = ''knowledge''"
| "entry_type_str Pattern = ''pattern''"
| "entry_type_str Context = ''context''"

record memory_metadata =
  md_timestamp :: nat
  md_source :: string
  md_relevance :: rat
  md_tags :: "string list"

record memory_entry =
  me_id :: string
  me_type :: entry_type
  me_content :: json
  me_metadata :: memory_metadata

datatype role = User | Assistant | System

record chat_message =
  cm_role :: role
  cm_content :: string
  cm_timestamp :: nat

record conversation_context =
  cc_messages :: "chat_message list"
  cc_summary :: string
  cc_keyTopics :: "string list"
  cc_lastActivity :: nat

datatype node_type = Concept | Function | Class | File | PatternNode

fun node_type_str :: "node_type \<Rightarrow> string" where
  "node_type_str Concept = ''concept''"
| "node_type_str Function = ''function''"
| "node_type_str Class = ''class''"
| "node_type_str File = ''file''"
| "node_type_str PatternNode = ''pattern''"

record knowledge_node =
  kn_id :: string
  kn_type :: node_type
  kn_label :: string
  kn_properties :: json

record knowledge_edge =
  edge_source :: string
  edge_target :: string
  edge_type :: string
  edge_weight :: rat

record code_pattern =
  cp_id :: string
  cp_pattern :: string
  cp_description :: string
  cp_examples :: "string list"
  cp_confidence :: rat
  cp_lastUsed :: nat

record knowledge_entry =
  ke_content :: string
  ke_relevance :: rat
  ke_source :: string
  ke_type :: string

text \<open>
  The four stores of \<open>MemorySystem\<close>. A JavaScript \<open>Map\<close> iterates in insertion order and
  \<open>set\<close> on a present key keeps the key's position: an association list with
  \<open>AList.update\<close>.
\<close>

record memory_system =
  conversations :: "(string \<times> conversation_context) list"
  memory :: "(string \<times> memory_entry) list"
  graph_nodes :: "knowledge_node list"
  graph_edges :: "knowledge_edge list"
  codePatterns :: "(string \<times> code_pattern list) list"

text \<open>
  \<open>calculateRelevance(query, content)\<close>: the number of query words that occur among the
  content's words, over the number of query words. \<open>split\<close> returns at least one piece, so
  the divisor is never zero.
\<close>

definition contentText :: "(json \<Rightarrow> string) \<Rightarrow> json \<Rightarrow> string" where
  "contentText sfy content = (case content of JStr s \<Rightarrow> s | _ \<Rightarrow> sfy content)"

fun count_matches :: "string list \<Rightarrow> string list \<Rightarrow> nat" where
  "count_matches [] contentWords = 0"
| "count_matches (queryWord # rest) contentWords =
     (if arr_includes contentWords queryWord then 1 else 0) + count_matches rest contentWords"

definition calculateRelevance :: "(json \<Rightarrow> string) \<Rightarrow> string \<Rightarrow> json \<Rightarrow> rat" where
  "calculateRelevance sfy query content =
     (let queryWords = split_nonword (toLowerCase query);
          contentWords = split_nonword (toLowerCase (contentText sfy content));
          matches = count_matches queryWords contentWords
      in of_nat matches / of_nat (length queryWords))"

definition searchKnowledgeGraph ::
  "(json \<Rightarrow> string) \<Rightarrow> memory_system \<Rightarrow> string \<Rightarrow> knowledge_entry list" where
  "searchKnowledgeGraph sfy ms query =
     concat (map (\<lambda>node.
        let relevance =
              calculateRelevance sfy query (JStr (kn_label node @ '' '' @ sfy (kn_properties node)))
        in if relevance > 4 / 10
           then [\<lparr>ke_content = ''Knowledge: '' @ kn_label node @ '' ('' @ node_type_str (kn_type node) @ '')'',
                  ke_relevance = relevance,
                  ke_source = ''knowledge_graph'',
                  ke_type = ''graph_node''\<rparr>]
           else []) (graph_nodes ms))"

text \<open>The scan of the stored entries in \<open>searchRelevantKnowledge\<close>, before the graph search.\<close>

definition searchMemoryEntries ::
  "(json \<Rightarrow> string) \<Rightarrow> memory_system \<Rightarrow> string \<Rightarrow> knowledge_entry list" where
  "searchMemoryEntries sfy ms query =
     concat (map (\<lambda>(key, entry).
        if me_type entry = Knowledge \<or> me_type entry = Pattern
        then (let relevance = calculateRelevance sfy query (me_content entry)
              in if relevance > 3 / 10
                 then [\<lparr>ke_content = contentText sfy (me_content entry),
                        ke_relevance = relevance,
                        ke_source = md_source (me_metadata entry),
                        ke_type = entry_type_str (me_type entry)\<rparr>]
                 else [])
        else []) (memory ms))"

text \<open>
  \<open>results.sort((a, b) => b.relevance - a.relevance).slice(0, 10)\<close>: \<open>Array.prototype.sort\<close>
  is stable, as \<open>sort_key\<close> is; descending relevance is ascending negated relevance.
\<close>

definition searchRelevantKnowledge ::
  "(json \<Rightarrow> string) \<Rightarrow> memory_system \<Rightarrow> string \<Rightarrow> knowledge_entry list" where
  "searchRelevantKnowledge sfy ms query =
     (let results = searchMemoryEntries sfy ms query @ searchKnowledgeGraph sfy ms query
      in take 10 (sort_key (\<lambda>e. - ke_relevance e) results))"

definition getConversationHistory :: "memory_system \<Rightarrow> string \<Rightarrow> chat_message list" where
  "getConversationHistory ms requestId =
     (case map_of (conversations ms) requestId of
        Some conversation \<Rightarrow> cc_messages conversation
      | None \<Rightarrow> [])"

subsection \<open>Storing an interaction\<close>

text \<open>
  \<open>Date.now()\<close> and \<open>Math.random()\<close> are inputs: \<open>now\<close> is the clock reading during the
  call and \<open>rnd k\<close> the rendering of the \<open>k\<close>-th random number drawn in it.
\<close>

definition extractTags :: "string \<Rightarrow> string list" where
  "extractTags text =
     (let wds = split_nonword (toLowerCase text);
          keywords = [''function'', ''class'', ''import'', ''export'', ''async'', ''await'',
                      ''try'', ''catch'', ''if'', ''for'', ''while'']
      in dedup [] (filter (\<lambda>word. arr_includes keywords word) wds))"

definition fence :: string where
  "fence = replicate 3 (CHR 0x60)"

text \<open>The text before and after the first code fence of a string, if it has one.\<close>

fun find_fence :: "string \<Rightarrow> (string \<times> string) option" where
  "find_fence [] = None"
| "find_fence (c # cs) =
     (if take 3 (c # cs) = fence then Some ([], drop 3 (c # cs))
      else (case find_fence cs of None \<Rightarrow> None | Some (before, after) \<Rightarrow> Some (c # before, after)))"

text \<open>\<open>s.trim()\<close>, for the white space of ASCII.\<close>

definition isSpace :: "char \<Rightarrow> bool" where
  "isSpace c = (c \<in> set [CHR '' '', CHR 0x09, CHR 0x0A, CHR 0x0B, CHR 0x0C, CHR 0x0D])"

definition trim :: "string \<Rightarrow> string" where
  "trim s = rev (dropWhile isSpace (rev (dropWhile isSpace s)))"

record code_block =
  cb_code :: string
  cb_language :: "string option"

text \<open>
  \<open>extractCodeBlocks\<close>: the successive matches of the regular expression
  \<open>```(\w+)?\n?([\s\S]*?)```\<close>. A match starts at the first fence, takes the longest run of
  word characters and one line feed if there is one, and ends at the next fence; the next
  match is looked for behind it. Where the opening fence has no closing one, no later
  position matches either.
\<close>

function extractCodeBlocks :: "string \<Rightarrow> code_block list" where
  "extractCodeBlocks content =
     (case find_fence content of
        None \<Rightarrow> []
      | Some (before, r) \<Rightarrow>
          (case find_fence (case dropWhile isWordChar r of
                              [] \<Rightarrow> []
                            | c # cs \<Rightarrow> if c = CHR 0x0A then cs else c # cs) of
             None \<Rightarrow> []
           | Some (code, after) \<Rightarrow>
               \<lparr>cb_code = trim code,
                cb_language = (if takeWhile isWordChar r = [] then None
                               else Some (takeWhile isWordChar r))\<rparr>
               # extractCodeBlocks after))"
  by pat_completeness auto
termination
proof (relation "measure length", goal_cases)
  case 1
  show ?case by simp
next
  case (2 content x2 before r x2a code after)
  have shorter: "find_fence s = Some (b, a) \<Longrightarrow> length a < length s" for s b a
    by (induction s arbitrary: b a) (auto split: if_splits option.splits)
  have a: "length r < length content"
    using 2(1,2) shorter by auto
  have "length (case dropWhile isWordChar r of [] \<Rightarrow> [] | c # cs \<Rightarrow> if c = CHR 0x0A then cs else c # cs)
          \<le> length r"
    using length_dropWhile_le [of isWordChar r] by (auto split: list.splits)
  moreover have "length after
          < length (case dropWhile isWordChar r of [] \<Rightarrow> [] | c # cs \<Rightarrow> if c = CHR 0x0A then cs else c # cs)"
    using 2(3,4) shorter by auto
  ultimately show ?case using a by simp
qed

declare extractCodeBlocks.simps [simp del]

definition generatePatternDescription :: "string \<Rightarrow> string \<Rightarrow> string" where
  "generatePatternDescription code lang =
     (if str_includes code ''function'' \<or> str_includes code ''def '' then ''Function definition pattern''
      else if str_includes code ''class '' then ''Class definition pattern''
      else if str_includes code ''import '' \<or> str_includes code ''from '' then ''Import statement pattern''
      else ''Code snippet pattern'')"

definition req_language :: "agent_request \<Rightarrow> string option" where
  "req_language request = (case req_context request of None \<Rightarrow> None | Some c \<Rightarrow> language c)"

definition req_workspace :: "agent_request \<Rightarrow> string option" where
  "req_workspace request = (case req_context request of None \<Rightarrow> None | Some c \<Rightarrow> workspace c)"

definition extractCodePatterns ::
  "nat \<Rightarrow> (nat \<Rightarrow> string) \<Rightarrow> agent_request \<Rightarrow> string \<Rightarrow> memory_system \<Rightarrow> memory_system" where
  "extractCodePatterns now rnd request responseContent ms =
     (case req_language request of
        None \<Rightarrow> ms
      | Some lang \<Rightarrow>
          if lang = [] then ms
          else
            let codeBlocks = extractCodeBlocks responseContent;
                patterns = (case map_of (codePatterns ms) lang of Some ps \<Rightarrow> ps | None \<Rightarrow> []);
                new = map (\<lambda>(k, block).
                        \<lparr>cp_id = ''pattern_'' @ show_nat now @ ''_'' @ rnd k,
                         cp_pattern = cb_code block,
                         cp_description = generatePatternDescription (cb_code block) lang,
                         cp_examples = [cb_code block],
                         cp_confidence = 7 / 10,
                         cp_lastUsed = now\<rparr>) (zip [0 ..< length codeBlocks] codeBlocks)
            in ms\<lparr>codePatterns := AList.update lang (patterns @ new) (codePatterns ms)\<rparr>)"

text \<open>
  The object \<open>{request, response, context}\<close> stored as an entry's content; a field that is
  \<open>undefined\<close> is left out, as \<open>JSON.stringify\<close> leaves it out.
\<close>

definition opt_field :: "string \<Rightarrow> string option \<Rightarrow> (string \<times> json) list" where
  "opt_field k v = (case v of None \<Rightarrow> [] | Some s \<Rightarrow> [(k, JStr s)])"

definition context_json :: "request_context \<Rightarrow> json" where
  "context_json c =
     JObj (opt_field ''filePath'' (filePath c) @ opt_field ''selection'' (selection c)
           @ opt_field ''workspace'' (workspace c) @ opt_field ''language'' (language c))"

definition extractKnowledge ::
  "nat \<Rightarrow> (nat \<Rightarrow> string) \<Rightarrow> agent_request \<Rightarrow> string \<Rightarrow> memory_system \<Rightarrow> memory_system" where
  "extractKnowledge now rnd request responseContent ms =
     (let withPatterns = truthy (req_language request) \<and> str_includes responseContent fence;
          ms1 = (if withPatterns then extractCodePatterns now rnd request responseContent ms else ms);
          drawn = (if withPatterns then length (extractCodeBlocks responseContent) else 0);
          knowledgeEntry =
            \<lparr>me_id = ''knowledge_'' @ show_nat now @ ''_'' @ rnd drawn,
             me_type = Knowledge,
             me_content = JObj ([(''request'', JStr (req_content request)),
                                 (''response'', JStr responseContent)]
                                @ (case req_context request of
                                     None \<Rightarrow> []
                                   | Some c \<Rightarrow> [(''context'', context_json c)])),
             me_metadata = \<lparr>md_timestamp = now, md_source = ''conversation'', md_relevance = 8 / 10,
                            md_tags = extractTags (req_content request @ '' '' @ responseContent)\<rparr>\<rparr>
      in ms1\<lparr>memory := AList.update (me_id knowledgeEntry) knowledgeEntry (memory ms1)\<rparr>)"

definition updateConversationSummary :: "string \<Rightarrow> memory_system \<Rightarrow> memory_system" where
  "updateConversationSummary conversationId ms =
     (case map_of (conversations ms) conversationId of
        None \<Rightarrow> ms
      | Some conversation \<Rightarrow>
          let messages = cc_messages conversation;
              keywords = [''function'', ''class'', ''error'', ''bug'', ''fix'', ''test'', ''api'', ''database''];
              topics = dedup [] (concat (map (\<lambda>message.
                         filter (\<lambda>word. arr_includes keywords word)
                                (split_nonword (toLowerCase (cm_content message)))) messages));
              summary = ''Conversation with '' @ show_nat (length messages)
                        @ '' messages covering: '' @ join '', '' topics
          in ms\<lparr>conversations := AList.update conversationId
                   (conversation\<lparr>cc_keyTopics := topics, cc_summary := summary\<rparr>) (conversations ms)\<rparr>)"

text \<open>
  \<open>storeInteraction(request, response)\<close>. Its body is one \<open>try\<close> block whose handler only
  logs, and \<open>persistMemory\<close>, which writes the stores to a file, has such a handler of its
  own: the call changes the stores below and never throws.
\<close>

definition storeInteraction ::
  "nat \<Rightarrow> (nat \<Rightarrow> string) \<Rightarrow> agent_request \<Rightarrow> string \<Rightarrow> memory_system \<Rightarrow> memory_system" where
  "storeInteraction now rnd request responseContent ms =
     (let conversationId = req_id request;
          conversation = (case map_of (conversations ms) conversationId of
                            Some c \<Rightarrow> c
                          | None \<Rightarrow> \<lparr>cc_messages = [], cc_summary = [], cc_keyTopics = [],
                                      cc_lastActivity = now\<rparr>);
          conversation1 = conversation\<lparr>cc_messages := cc_messages conversation
                             @ [\<lparr>cm_role = User, cm_content = req_content request, cm_timestamp = now\<rparr>,
                                \<lparr>cm_role = Assistant, cm_content = responseContent, cm_timestamp = now\<rparr>],
                             cc_lastActivity := now\<rparr>;
          ms1 = ms\<lparr>conversations := AList.update conversationId conversation1 (conversations ms)\<rparr>;
          ms2 = extractKnowledge now rnd request responseContent ms1
      in updateConversationSummary conversationId ms2)"

section \<open>The model manager (model-manager.ts)\<close>

datatype provider_type = Local | Api

record model_info =
  mi_name :: string
  mi_provider :: string
  mi_type :: provider_type
  mi_capabilities :: "string list"
  mi_contextLength :: nat
  mi_costPerToken :: "rat option"

record model_request =
  mq_messages :: "(role \<times> string) list"
  mq_model :: string
  mq_provider :: string
  mq_temperature :: rat
  mq_maxTokens :: nat

record model_response =
  mr_content :: string
  mr_tokens :: "nat option"
  mr_confidence :: "rat option"

record exec_options =
  signal_aborted :: bool
  timeout :: nat

text \<open>
  A provider answers over the network: what its three operations return, or throw, is the
  provider's part of the environment of a call. \<open>p_execute\<close> is given the request and the
  options the manager passes on, the abort signal's state among them.
\<close>

record provider =
  p_name :: string
  p_isAvailable :: "thrown + bool"
  p_listModels :: "thrown + model_info list"
  p_execute :: "model_request \<Rightarrow> exec_options \<Rightarrow> thrown + model_response"

definition name_matches :: "string \<Rightarrow> model_info \<Rightarrow> bool" where
  "name_matches modelName m = (mi_name m = modelName \<or> str_includes (mi_name m) modelName)"

text \<open>
  \<open>findModel\<close>: the providers in the order of the map; a provider whose listing throws is
  logged and skipped.
\<close>

fun findModel :: "provider list \<Rightarrow> string \<Rightarrow> model_info option" where
  "findModel [] modelName = None"
| "findModel (p # ps) modelName =
     (case p_listModels p of
        Inl e \<Rightarrow> findModel ps modelName
      | Inr models \<Rightarrow>
          (case find (name_matches modelName) models of
             Some m \<Rightarrow> Some m
           | None \<Rightarrow> findModel ps modelName))"

fun getAvailableModels :: "provider list \<Rightarrow> model_info list" where
  "getAvailableModels [] = []"
| "getAvailableModels (p # ps) =
     (case p_isAvailable p of
        Inl e \<Rightarrow> getAvailableModels ps
      | Inr avail \<Rightarrow>
          if avail
          then (case p_listModels p of
                  Inl e \<Rightarrow> getAvailableModels ps
                | Inr models \<Rightarrow> models @ getAvailableModels ps)
          else getAvailableModels ps)"

definition taskModelMap :: "(string \<times> string list) list" where
  "taskModelMap =
     [(''conversational'', [''gpt-4o'', ''claude-3-5-sonnet'', ''gemini-pro'', ''codellama'']),
      (''instruction'', [''codellama'', ''starcoder'', ''deepseek-coder'', ''gpt-4o'']),
      (''analytical'', [''claude-3-5-sonnet'', ''gpt-4o'', ''gemini-pro'', ''codellama:13b'']),
      (''code'', [''codellama'', ''starcoder'', ''deepseek-coder'', ''gpt-4o'']),
      (''debugging'', [''codellama'', ''starcoder'', ''gpt-4o'', ''claude-3-5-sonnet'']),
      (''testing'', [''codellama'', ''gpt-4o'', ''claude-3-5-sonnet'', ''starcoder'']),
      (''general'', [''codellama'', ''gpt-4o'', ''claude-3-5-sonnet'', ''gemini-pro''])]"

definition preferredModels :: "string \<Rightarrow> string list" where
  "preferredModels taskType =
     (case map_of taskModelMap taskType of
        Some names \<Rightarrow> names
      | None \<Rightarrow> [''codellama'', ''gpt-4o'', ''claude-3-5-sonnet'', ''gemini-pro''])"

text \<open>The loop over the preferred names: the first name that \<open>findModel\<close> finds.\<close>

fun firstFound :: "provider list \<Rightarrow> string list \<Rightarrow> model_info option" where
  "firstFound ps [] = None"
| "firstFound ps (modelName # rest) =
     (case findModel ps modelName of
        Some m \<Rightarrow> Some m
      | None \<Rightarrow> firstFound ps rest)"

definition selectModelByTaskType :: "provider list \<Rightarrow> string \<Rightarrow> thrown + model_info" where
  "selectModelByTaskType ps taskType =
     (case firstFound ps (preferredModels taskType) of
        Some m \<Rightarrow> Inr m
      | None \<Rightarrow>
          (case getAvailableModels ps of
             m # rest \<Rightarrow> Inr m
           | [] \<Rightarrow> Inl (Error ''No models available'')))"

text \<open>
  \<open>ModelManager.selectModel\<close>. It returns the model, or what was thrown, and the manager's
  \<open>currentModel\<close> after the call: the field is assigned just before each \<open>return\<close>.
  The test \<open>if (preferredModel)\<close> is false for \<open>undefined\<close> and for the empty string.
\<close>

definition selectModel ::
  "provider list \<Rightarrow> model_info option \<Rightarrow> string \<Rightarrow> string option
     \<Rightarrow> (thrown + model_info) \<times> model_info option" where
  "selectModel ps currentModel taskType preferredModel =
     (case (case preferredModel of
              None \<Rightarrow> None
            | Some modelName \<Rightarrow> if modelName = [] then None else findModel ps modelName) of
        Some m \<Rightarrow> (Inr m, Some m)
      | None \<Rightarrow>
          (case selectModelByTaskType ps taskType of
             Inr m \<Rightarrow> (Inr m, Some m)
           | Inl e \<Rightarrow> (Inl e, currentModel)))"

fun lookup_provider :: "provider list \<Rightarrow> string \<Rightarrow> provider option" where
  "lookup_provider [] n = None"
| "lookup_provider (p # ps) n = (if p_name p = n then Some p else lookup_provider ps n)"

text \<open>\<open>ModelManager.execute\<close>: a provider's failure is logged and thrown again.\<close>

definition ModelManager_execute ::
  "provider list \<Rightarrow> model_request \<Rightarrow> exec_options \<Rightarrow> thrown + model_response" where
  "ModelManager_execute ps request options =
     (case lookup_provider ps (mq_provider request) of
        None \<Rightarrow> Inl (Error (''Provider '' @ mq_provider request @ '' not found''))
      | Some p \<Rightarrow> p_execute p request options)"

definition getCurrentModel :: "model_info option \<Rightarrow> string" where
  "getCurrentModel currentModel =
     (case currentModel of
        None \<Rightarrow> ''none''
      | Some m \<Rightarrow> if mi_name m = [] then ''none'' else mi_name m)"

section \<open>The tool system (tools/tool-system.ts)\<close>

record tool_context =
  tc_request :: agent_request
  tc_workspaceRoot :: "string option"
  tc_workingDirectory :: string
  tc_timeout :: nat

text \<open>
  A tool's entry point has effects outside the program (files, shells, the network). Its
  outcome on a context is part of the environment: the time the call took, in
  milliseconds, and the value it returned or threw. Both callers that read the clock
  around the call measure that time.
\<close>

record tool =
  tool_name :: string
  tool_description :: string
  tool_capabilities :: "string list"
  tool_execute :: "tool_context \<Rightarrow> nat \<times> (thrown + json)"

text \<open>The messages the tool system hands to the logger; the other components' are left out.\<close>

datatype tool_log =
    ToolExecuting string string
  | ToolCompleted string string nat
  | ToolFailed string string thrown nat

definition registerTool :: "tool \<Rightarrow> (string \<times> tool) list \<Rightarrow> (string \<times> tool) list" where
  "registerTool t tools = AList.update (tool_name t) t tools"

fun requiredCapabilities :: "request_type \<Rightarrow> string list" where
  "requiredCapabilities Chat = [''chat'', ''general'']"
| "requiredCapabilities Command = [''fileops'', ''terminal'', ''code'', ''general'']"
| "requiredCapabilities Analysis = [''analysis'', ''code'', ''search'', ''general'']"
| "requiredCapabilities Refactor = [''fileops'', ''code'', ''analysis'', ''general'']"
| "requiredCapabilities Debug = [''debug'', ''code'', ''terminal'', ''analysis'', ''general'']"
| "requiredCapabilities Test = [''testing'', ''code'', ''terminal'', ''general'']"

definition toolCapabilitiesMatchRequest :: "tool \<Rightarrow> agent_request \<Rightarrow> bool" where
  "toolCapabilitiesMatchRequest t request =
     list_ex (\<lambda>cap. arr_includes (requiredCapabilities (req_type request)) cap) (tool_capabilities t)"

text \<open>
  \<open>getToolsForRequest\<close>. \<open>enabledConfig\<close> is the setting \<open>agent.tools.enabled\<close>, \<open>None\<close>
  where it is not set: \<open>config?.enabled || []\<close>.
\<close>

definition getToolsForRequest ::
  "string list option \<Rightarrow> (string \<times> tool) list \<Rightarrow> agent_request \<Rightarrow> tool list" where
  "getToolsForRequest enabledConfig tools request =
     (let enabledTools = (case enabledConfig of Some l \<Rightarrow> l | None \<Rightarrow> [])
      in filter (\<lambda>t.
           if \<not> arr_includes enabledTools (tool_name t) \<and> length enabledTools > 0 then False
           else toolCapabilitiesMatchRequest t request) (map snd tools))"

text \<open>
  \<open>executeTool\<close>: what the call returns or throws again, the time it measured and the
  messages it logged. \<open>cwd\<close> is \<open>process.cwd()\<close>.
\<close>

definition toolContext :: "string \<Rightarrow> agent_request \<Rightarrow> tool_context" where
  "toolContext cwd request =
     \<lparr>tc_request = request,
      tc_workspaceRoot = req_workspace request,
      tc_workingDirectory = (case req_workspace request of
                               None \<Rightarrow> cwd
                             | Some w \<Rightarrow> if w = [] then cwd else w),
      tc_timeout = 30000\<rparr>"

definition executeTool :: "string \<Rightarrow> tool \<Rightarrow> agent_request \<Rightarrow> (thrown + json) \<times> tool_log list" where
  "executeTool cwd t request =
     (case tool_execute t (toolContext cwd request) of
        (duration, Inr result) \<Rightarrow>
          (Inr result,
           [ToolExecuting (tool_name t) (req_id request),
            ToolCompleted (tool_name t) (req_id request) duration])
      | (duration, Inl error) \<Rightarrow>
          (Inl error,
           [ToolExecuting (tool_name t) (req_id request),
            ToolFailed (tool_name t) (req_id request) error duration]))"

section \<open>The orchestrator (agent-orchestrator.ts)\<close>

datatype event =
    RequestStarted agent_request
  | ResponseReceived agent_response
  | RequestEnded string

text \<open>
  The state shared by the calls on one orchestrator. An \<open>AbortController\<close> is an object
  with identity: \<open>nextController\<close> is the address the next \<open>new AbortController()\<close> gets,
  \<open>aborted\<close> the controllers whose signal is aborted, and \<open>activeRequests\<close> maps a request
  id to its controller's address. \<open>events\<close> is what the three emitters have fired, in
  order. \<open>currentModel\<close> is the model manager's field, \<open>mem\<close> the memory system, \<open>toolLog\<close>
  the tool system's log. Firing an event and writing to the log add an item to these
  lists; the listeners and the logger are outside the program and are taken to return.
\<close>

record orchestrator =
  activeRequests :: "(string \<times> nat) list"
  aborted :: "nat set"
  nextController :: nat
  events :: "event list"
  currentModel :: "model_info option"
  mem :: memory_system
  toolLog :: "tool_log list"

text \<open>
  What one call of \<open>execute\<close> meets outside the orchestrator's state: the built-in
  \<open>JSON.stringify\<close>, the providers and tools with their outcomes, the configuration, the
  clock and the random numbers. \<open>env_duration\<close> is \<open>Date.now() - startTime\<close> at the end of
  the call.
\<close>

record env =
  env_sfy :: "json \<Rightarrow> string"
  env_providers :: "provider list"
  env_enabledTools :: "string list option"
  env_tools :: "(string \<times> tool) list"
  env_cwd :: string
  env_now :: nat
  env_rnd :: "nat \<Rightarrow> string"
  env_duration :: nat

record agent_context =
  ctx_conversation :: "chat_message list"
  ctx_workspace :: "string option"
  ctx_file :: "string option"
  ctx_selection :: "string option"
  ctx_language :: "string option"
  ctx_relevantKnowledge :: "knowledge_entry list"

record enhanced_response =
  er_content :: string
  er_tokens :: "nat option"
  er_confidence :: rat

fun taskType :: "request_type \<Rightarrow> string" where
  "taskType Chat = ''conversational''"
| "taskType Command = ''instruction''"
| "taskType Analysis = ''analytical''"
| "taskType Refactor = ''code''"
| "taskType Debug = ''debugging''"
| "taskType Test = ''testing''"

definition req_model :: "agent_request \<Rightarrow> string option" where
  "req_model request = (case req_options request of None \<Rightarrow> None | Some opts \<Rightarrow> opt_model opts)"

definition req_timeout :: "agent_request \<Rightarrow> nat option" where
  "req_timeout request = (case req_options request of None \<Rightarrow> None | Some opts \<Rightarrow> opt_timeout opts)"

definition orch_selectModel ::
  "env \<Rightarrow> model_info option \<Rightarrow> agent_request \<Rightarrow> (thrown + model_info) \<times> model_info option" where
  "orch_selectModel e cur request =
     selectModel (env_providers e) cur (taskType (req_type request)) (req_model request)"

definition gatherContext :: "env \<Rightarrow> memory_system \<Rightarrow> agent_request \<Rightarrow> agent_context" where
  "gatherContext e ms request =
     \<lparr>ctx_conversation = getConversationHistory ms (req_id request),
      ctx_workspace = req_workspace request,
      ctx_file = (case req_context request of None \<Rightarrow> None | Some c \<Rightarrow> filePath c),
      ctx_selection = (case req_context request of None \<Rightarrow> None | Some c \<Rightarrow> selection c),
      ctx_language = req_language request,
      ctx_relevantKnowledge = searchRelevantKnowledge (env_sfy e) ms (req_content request)\<rparr>"

fun typeSpecificPrompt :: "request_type \<Rightarrow> string" where
  "typeSpecificPrompt Chat = ''You are having a conversation about coding. Be helpful and engaging.''"
| "typeSpecificPrompt Command = ''Execute the requested coding task using available tools.''"
| "typeSpecificPrompt Analysis = ''Analyze the provided code and provide insights.''"
| "typeSpecificPrompt Refactor = ''Refactor the code to improve quality, maintainability, and performance.''"
| "typeSpecificPrompt Debug = ''Debug the issue and provide solutions.''"
| "typeSpecificPrompt Test = ''Generate or improve tests for the codebase.''"

definition generateSystemPrompt :: "request_type \<Rightarrow> string" where
  "generateSystemPrompt ty =
     ''You are an expert AI coding assistant integrated into VSCode.'' @ [CHR 0x0A]
     @ ''You have access to powerful tools and can help with various coding tasks.''
     @ [CHR 0x0A, CHR 0x0A] @ typeSpecificPrompt ty"

fun getTemperatureForRequestType :: "request_type \<Rightarrow> rat" where
  "getTemperatureForRequestType Chat = 7 / 10"
| "getTemperatureForRequestType Command = 3 / 10"
| "getTemperatureForRequestType Analysis = 2 / 10"
| "getTemperatureForRequestType Refactor = 3 / 10"
| "getTemperatureForRequestType Debug = 2 / 10"
| "getTemperatureForRequestType Test = 3 / 10"

fun getMaxTokensForRequestType :: "request_type \<Rightarrow> nat" where
  "getMaxTokensForRequestType Chat = 2048"
| "getMaxTokensForRequestType Command = 4096"
| "getMaxTokensForRequestType Analysis = 8192"
| "getMaxTokensForRequestType Refactor = 8192"
| "getMaxTokensForRequestType Debug = 4096"
| "getMaxTokensForRequestType Test = 4096"

definition prepareModelRequest :: "agent_request \<Rightarrow> agent_context \<Rightarrow> model_info \<Rightarrow> model_request" where
  "prepareModelRequest request context model =
     \<lparr>mq_messages = [(System, generateSystemPrompt (req_type request))]
                     @ map (\<lambda>c. (cm_role c, cm_content c)) (ctx_conversation context)
                     @ [(User, req_content request)],
      mq_model = mi_name model,
      mq_provider = mi_provider model,
      mq_temperature = getTemperatureForRequestType (req_type request),
      mq_maxTokens = getMaxTokensForRequestType (req_type request)\<rparr>"

definition error_message :: "string \<Rightarrow> thrown \<Rightarrow> string" where
  "error_message dflt error = (case error of Error message \<Rightarrow> message | NotAnError \<Rightarrow> dflt)"

text \<open>
  The loop of \<open>executeTools\<close>: one entry for each tool, in order. A tool that throws
  leaves an entry with the result \<open>null\<close>, the error's message and the duration 0.
\<close>

fun runTools :: "string \<Rightarrow> agent_request \<Rightarrow> tool list \<Rightarrow> tool_result list \<times> tool_log list" where
  "runTools cwd request [] = ([], [])"
| "runTools cwd request (t # ts) =
     (let (outcome, logged) = executeTool cwd t request;
          entry = (case outcome of
                     Inr result \<Rightarrow>
                       \<lparr>tr_name = tool_name t, tr_result = result, tr_error = None,
                        tr_duration = fst (tool_execute t (toolContext cwd request))\<rparr>
                   | Inl error \<Rightarrow>
                       \<lparr>tr_name = tool_name t, tr_result = JNull,
                        tr_error = Some (error_message ''Tool execution failed'' error),
                        tr_duration = 0\<rparr>);
          (entries, logs) = runTools cwd request ts
      in (entry # entries, logged @ logs))"

definition executeTools :: "env \<Rightarrow> agent_request \<Rightarrow> tool_result list \<times> tool_log list" where
  "executeTools e request =
     runTools (env_cwd e) request (getToolsForRequest (env_enabledTools e) (env_tools e) request)"

definition toolLine :: "(json \<Rightarrow> string) \<Rightarrow> tool_result \<Rightarrow> string" where
  "toolLine sfy t =
     ''**'' @ tr_name t @ ''**: ''
     @ (case tr_error t of
          None \<Rightarrow> sfy (tr_result t)
        | Some message \<Rightarrow> if message = [] then sfy (tr_result t) else message)
     @ [CHR 0x0A]"

definition enhanceResponse ::
  "(json \<Rightarrow> string) \<Rightarrow> model_response \<Rightarrow> tool_result list \<Rightarrow> enhanced_response" where
  "enhanceResponse sfy modelResponse toolResults =
     \<lparr>er_content = mr_content modelResponse
                    @ (if length toolResults > 0
                       then [CHR 0x0A, CHR 0x0A] @ ''Tool Results:'' @ [CHR 0x0A]
                            @ concat (map (toolLine sfy) toolResults)
                       else []),
      er_tokens = mr_tokens modelResponse,
      er_confidence = (case mr_confidence modelResponse of
                         None \<Rightarrow> 8 / 10
                       | Some c \<Rightarrow> if c = 0 then 8 / 10 else c)\<rparr>"

text \<open>
  \<open>execute\<close> runs without interruption up to its first \<open>await\<close>: it creates the
  controller, registers it under the request's id and fires the start event.
  \<open>execute_begin\<close> is that part; it returns the controller with the new state.
\<close>

definition execute_begin :: "agent_request \<Rightarrow> orchestrator \<Rightarrow> nat \<times> orchestrator" where
  "execute_begin request s =
     (let abortController = nextController s
      in (abortController,
          s\<lparr>nextController := Suc abortController,
            activeRequests := AList.update (req_id request) abortController (activeRequests s),
            events := events s @ [RequestStarted request]\<rparr>))"

text \<open>The \<open>finally\<close> block.\<close>

definition execute_finally :: "agent_request \<Rightarrow> orchestrator \<Rightarrow> orchestrator" where
  "execute_finally request s =
     s\<lparr>activeRequests := AList.delete (req_id request) (activeRequests s),
       events := events s @ [RequestEnded (req_id request)]\<rparr>"

text \<open>The \<open>catch\<close> block.\<close>

definition errorResponse :: "agent_request \<Rightarrow> thrown \<Rightarrow> agent_response" where
  "errorResponse request error =
     \<lparr>resp_id = req_id request @ ''_error'',
      resp_requestId = req_id request,
      resp_content = [],
      resp_tools = None,
      resp_error = Some (error_message ''Unknown error occurred'' error),
      resp_metadata = None\<rparr>"

text \<open>The options of the model call: the controller's signal and the effective timeout.\<close>

definition execOptions :: "agent_request \<Rightarrow> nat \<Rightarrow> orchestrator \<Rightarrow> exec_options" where
  "execOptions request abortController s =
     \<lparr>signal_aborted = (abortController \<in> aborted s),
      timeout = (case req_timeout request of
                   None \<Rightarrow> 30000
                 | Some t \<Rightarrow> if t = 0 then 30000 else t)\<rparr>"

text \<open>The response built on the path without a failure.\<close>

definition successResponse ::
  "env \<Rightarrow> agent_request \<Rightarrow> model_info \<Rightarrow> enhanced_response \<Rightarrow> tool_result list \<Rightarrow> agent_response" where
  "successResponse e request model enhancedResponse toolResults =
     \<lparr>resp_id = req_id request @ ''_response'',
      resp_requestId = req_id request,
      resp_content = er_content enhancedResponse,
      resp_tools = Some toolResults,
      resp_error = None,
      resp_metadata =
        Some \<lparr>meta_model = mi_name model,
              meta_provider = mi_provider model,
              meta_tokens = (case er_tokens enhancedResponse of None \<Rightarrow> 0 | Some n \<Rightarrow> n),
              meta_duration = env_duration e\<rparr>\<rparr>"

text \<open>
  The rest of \<open>execute\<close>, from the first \<open>await\<close> to the end of the \<open>finally\<close> block, on
  the state \<open>s\<close> it finds: other calls may have run since \<open>execute_begin\<close>.
  The statements that can throw are the model selection and the model call; each goes to
  the \<open>catch\<close> block, and every path ends in the \<open>finally\<close> block.
\<close>

definition execute_finish :: "env \<Rightarrow> agent_request \<Rightarrow> nat \<Rightarrow> orchestrator \<Rightarrow> agent_response \<times> orchestrator" where
  "execute_finish e request abortController s =
     (case orch_selectModel e (currentModel s) request of
        (Inl error, cur) \<Rightarrow>
          (errorResponse request error, execute_finally request (s\<lparr>currentModel := cur\<rparr>))
      | (Inr model, cur) \<Rightarrow>
          let context = gatherContext e (mem s) request;
              modelRequest = prepareModelRequest request context model;
              (toolResults, logged) = executeTools e request;
              s1 = s\<lparr>currentModel := cur, toolLog := toolLog s @ logged\<rparr>
          in (case ModelManager_execute (env_providers e) modelRequest
                     (execOptions request abortController s) of
                Inl error \<Rightarrow> (errorResponse request error, execute_finally request s1)
              | Inr modelResponse \<Rightarrow>
                  let enhancedResponse = enhanceResponse (env_sfy e) modelResponse toolResults;
                      s2 = s1\<lparr>mem := storeInteraction (env_now e) (env_rnd e) request
                                        (er_content enhancedResponse) (mem s1)\<rparr>;
                      response = successResponse e request model enhancedResponse toolResults;
                      s3 = s2\<lparr>events := events s2 @ [ResponseReceived response]\<rparr>
                  in (response, execute_finally request s3)))"

text \<open>
  Two shorthands for stating properties: the model call \<open>execute\<close> makes once it has
  selected \<open>model\<close>, and the outcome of the steps up to the model's answer, which is what
  the selection threw, or what the call threw or returned.
\<close>

abbreviation modelCall ::
  "env \<Rightarrow> agent_request \<Rightarrow> nat \<Rightarrow> orchestrator \<Rightarrow> model_info \<Rightarrow> thrown + model_response" where
  "modelCall e request abortController s model \<equiv>
     ModelManager_execute (env_providers e)
       (prepareModelRequest request (gatherContext e (mem s) request) model)
       (execOptions request abortController s)"

abbreviation modelAnswer ::
  "env \<Rightarrow> agent_request \<Rightarrow> nat \<Rightarrow> orchestrator \<Rightarrow> thrown + model_response" where
  "modelAnswer e request abortController s \<equiv>
     (case fst (orch_selectModel e (currentModel s) request) of
        Inl error \<Rightarrow> Inl error
      | Inr model \<Rightarrow> modelCall e request abortController s model)"

text \<open>A call of \<open>execute\<close> that no other call interleaves with.\<close>

definition execute :: "env \<Rightarrow> agent_request \<Rightarrow> orchestrator \<Rightarrow> agent_response \<times> orchestrator" where
  "execute e request s =
     (let (abortController, s1) = execute_begin request s
      in execute_finish e request abortController s1)"

definition cancel :: "string \<Rightarrow> orchestrator \<Rightarrow> orchestrator" where
  "cancel requestId s =
     (case map_of (activeRequests s) requestId of
        None \<Rightarrow> s
      | Some controller \<Rightarrow>
          s\<lparr>aborted := insert controller (aborted s),
            activeRequests := AList.delete requestId (activeRequests s)\<rparr>)"

text \<open>
  \<open>getStatus\<close>: the fields read from the orchestrator's own state. (\<open>availableModels\<close> holds
  the pending promise of an asynchronous call and \<open>memoryUsage\<close> the length of a
  serialisation of the stores; neither is modelled.)
\<close>

record agent_status =
  st_isActive :: bool
  st_activeRequests :: "string list"
  st_currentModel :: string

definition getStatus :: "orchestrator \<Rightarrow> agent_status" where
  "getStatus s =
     \<lparr>st_isActive = (length (activeRequests s) > 0),
      st_activeRequests = map fst (activeRequests s),
      st_currentModel = getCurrentModel (currentModel s)\<rparr>"

section \<open>The providers and some tools of the repository, and a scenario\<close>

text \<open>
  The seven providers in the order \<open>initializeProviders\<close> registers them. Whether an API key
  is configured, what the Ollama server lists and what the remote services answer are
  parameters. The Hugging Face provider's \<open>execute\<close> is a placeholder that ignores the
  abort signal; the last four providers are placeholders altogether.
\<close>

definition hfModel :: "string \<Rightarrow> string list \<Rightarrow> nat \<Rightarrow> model_info" where
  "hfModel n caps len =
     \<lparr>mi_name = n, mi_provider = ''huggingface'', mi_type = Api, mi_capabilities = caps,
      mi_contextLength = len, mi_costPerToken = Some (1 / 10000)\<rparr>"

definition HuggingFaceProvider :: "bool \<Rightarrow> provider" where
  "HuggingFaceProvider hasKey =
     \<lparr>p_name = ''huggingface'',
      p_isAvailable = Inr hasKey,
      p_listModels = Inr [hfModel ''codellama'' [''code'', ''chat'', ''instruction''] 16384,
                          hfModel ''starcoder'' [''code'', ''completion''] 8192,
                          hfModel ''deepseek-coder'' [''code'', ''chat'', ''instruction''] 32768],
      p_execute = (\<lambda>request options.
         Inr \<lparr>mr_content = ''Hugging Face '' @ mq_model request @ '' response'',
              mr_tokens = Some 150, mr_confidence = None\<rparr>)\<rparr>"

definition ollamaModel :: "string \<Rightarrow> model_info" where
  "ollamaModel n =
     \<lparr>mi_name = n, mi_provider = ''ollama'', mi_type = Local,
      mi_capabilities = [''code'', ''chat'', ''instruction''],
      mi_contextLength = 4096, mi_costPerToken = Some 0\<rparr>"

definition OllamaProvider ::
  "bool \<Rightarrow> string list \<Rightarrow> (model_request \<Rightarrow> exec_options \<Rightarrow> thrown + model_response) \<Rightarrow> provider" where
  "OllamaProvider running names answer =
     \<lparr>p_name = ''ollama'',
      p_isAvailable = Inr running,
      p_listModels = Inr (if running then map ollamaModel names else []),
      p_execute = answer\<rparr>"

definition openaiModel :: "string \<Rightarrow> string list \<Rightarrow> nat \<Rightarrow> rat \<Rightarrow> model_info" where
  "openaiModel n caps len cost =
     \<lparr>mi_name = n, mi_provider = ''openai'', mi_type = Api, mi_capabilities = caps,
      mi_contextLength = len, mi_costPerToken = Some cost\<rparr>"

definition OpenAIProvider ::
  "bool \<Rightarrow> (model_request \<Rightarrow> exec_options \<Rightarrow> thrown + model_response) \<Rightarrow> provider" where
  "OpenAIProvider hasKey answer =
     \<lparr>p_name = ''openai'',
      p_isAvailable = Inr hasKey,
      p_listModels = Inr [openaiModel ''gpt-4o'' [''chat'', ''code'', ''instruction'', ''analysis''] 128000 (3 / 100000),
                          openaiModel ''gpt-4-turbo'' [''chat'', ''code'', ''instruction'', ''analysis''] 128000 (1 / 100000),
                          openaiModel ''gpt-3.5-turbo'' [''chat'', ''code'', ''instruction''] 16384 (2 / 1000000)],
      p_execute = answer\<rparr>"

definition PlaceholderProvider :: "string \<Rightarrow> string \<Rightarrow> provider" where
  "PlaceholderProvider n title =
     \<lparr>p_name = n,
      p_isAvailable = Inr False,
      p_listModels = Inr [],
      p_execute = (\<lambda>request options. Inl (Error (title @ '' provider not implemented'')))\<rparr>"

definition initializeProviders ::
  "bool \<Rightarrow> provider \<Rightarrow> bool \<Rightarrow> (model_request \<Rightarrow> exec_options \<Rightarrow> thrown + model_response)
     \<Rightarrow> provider list" where
  "initializeProviders hfKey ollama openaiKey openaiAnswer =
     [HuggingFaceProvider hfKey, ollama, OpenAIProvider openaiKey openaiAnswer,
      PlaceholderProvider ''anthropic'' ''Anthropic'',
      PlaceholderProvider ''google'' ''Google'',
      PlaceholderProvider ''azure'' ''Azure'',
      PlaceholderProvider ''openrouter'' ''OpenRouter'']"

text \<open>
  Three of the registered tools, with name, description and capabilities as the source
  gives them; the outcome of the entry point is a parameter.
\<close>

definition createFileReadTool :: "(tool_context \<Rightarrow> nat \<times> (thrown + json)) \<Rightarrow> tool" where
  "createFileReadTool run =
     \<lparr>tool_name = ''read_file'', tool_description = ''Read the contents of a file'',
      tool_capabilities = [''fileops'', ''analysis'', ''general''], tool_execute = run\<rparr>"

definition createTerminalCommandTool :: "(tool_context \<Rightarrow> nat \<times> (thrown + json)) \<Rightarrow> tool" where
  "createTerminalCommandTool run =
     \<lparr>tool_name = ''run_terminal_command'', tool_description = ''Execute a terminal command'',
      tool_capabilities = [''terminal'', ''general''], tool_execute = run\<rparr>"

definition createDatabaseQueryTool :: "(tool_context \<Rightarrow> nat \<times> (thrown + json)) \<Rightarrow> tool" where
  "createDatabaseQueryTool run =
     \<lparr>tool_name = ''database_query'', tool_description = ''Execute database queries'',
      tool_capabilities = [''database''], tool_execute = run\<rparr>"

text \<open>
  A scenario: a remote service that answers unless the signal is aborted, a file tool that
  throws (it is called without a path), a terminal tool that returns, a debug request
  \<open>r1\<close>, and an orchestrator that has done nothing yet.
\<close>

definition answering :: "model_request \<Rightarrow> exec_options \<Rightarrow> thrown + model_response" where
  "answering request options =
     (if signal_aborted options then Inl (Error ''The operation was aborted'')
      else Inr \<lparr>mr_content = ''Check the receiver for null.'', mr_tokens = Some 42,
                mr_confidence = None\<rparr>)"

definition refusing :: "model_request \<Rightarrow> exec_options \<Rightarrow> thrown + model_response" where
  "refusing request options = Inl (Error ''OpenAI API error: Unauthorized'')"

definition scenario_tools :: "(string \<times> tool) list" where
  "scenario_tools =
     registerTool (createDatabaseQueryTool (\<lambda>c. (1, Inr JNull)))
       (registerTool (createTerminalCommandTool (\<lambda>c. (7, Inr (JObj [(''exitCode'', JNum 0)]))))
          (registerTool (createFileReadTool (\<lambda>c. (3, Inl (Error ''path is required'')))) []))"

definition scenario_env :: "(model_request \<Rightarrow> exec_options \<Rightarrow> thrown + model_response) \<Rightarrow> env" where
  "scenario_env openaiAnswer =
     \<lparr>env_sfy = (\<lambda>j. ''{}''),
      env_providers = initializeProviders True (OllamaProvider False [] refusing) True openaiAnswer,
      env_enabledTools = None,
      env_tools = scenario_tools,
      env_cwd = ''/work'',
      env_now = 1000,
      env_rnd = (\<lambda>k. ''0.5''),
      env_duration = 250\<rparr>"

definition r1 :: agent_request where
  "r1 = \<lparr>req_id = ''r1'', req_type = Debug, req_content = ''fix null pointer'',
         req_context = None, req_options = None\<rparr>"

definition r1_gpt :: agent_request where
  "r1_gpt = r1\<lparr>req_options := Some \<lparr>opt_model = Some ''gpt-4o'', opt_provider = None,
                                     opt_streaming = None, opt_timeout = None\<rparr>\<rparr>"

definition empty_memory :: memory_system where
  "empty_memory = \<lparr>conversations = [], memory = [], graph_nodes = [], graph_edges = [], codePatterns = []\<rparr>"

definition idle :: orchestrator where
  "idle = \<lparr>activeRequests = [], aborted = {}, nextController = 0, events = [],
           currentModel = None, mem = empty_memory, toolLog = []\<rparr>"

text \<open>A store holding one knowledge entry, a sentence.\<close>

definition sentence_entry :: memory_entry where
  "sentence_entry =
     \<lparr>me_id = ''knowledge_1'', me_type = Knowledge,
      me_content = JStr ''I got a database connection error today'',
      me_metadata = \<lparr>md_timestamp = 1, md_source = ''conversation'', md_relevance = 8 / 10,
                     md_tags = []\<rparr>\<rparr>"

definition sentence_memory :: memory_system where
  "sentence_memory = empty_memory\<lparr>memory := [(''knowledge_1'', sentence_entry)]\<rparr>"

section \<open>Relevance search\<close>

lemma count_matches_filter:
  "count_matches queryWords contentWords = length (filter (\<lambda>w. w \<in> set contentWords) queryWords)"
  by (induction queryWords) (simp_all add: arr_includes_def)

lemma splitW_nonempty: "splitW cur s \<noteq> []" "skipW s \<noteq> []"
  by (induction cur s and s rule: splitW_skipW.induct) simp_all

lemma split_nonword_nonempty: "0 < length (split_nonword s)"
  by (simp add: split_nonword_def splitW_nonempty)

lemma relevance_fraction:
  "calculateRelevance sfy query content =
     of_nat (length (filter (\<lambda>w. w \<in> set (split_nonword (toLowerCase (contentText sfy content))))
                            (split_nonword (toLowerCase query))))
     / of_nat (length (split_nonword (toLowerCase query)))"
  by (simp add: calculateRelevance_def Let_def count_matches_filter)

lemma searchMemoryEntries_iff:
  "x \<in> set (searchMemoryEntries sfy ms query) \<longleftrightarrow>
     (\<exists>key entry. (key, entry) \<in> set (memory ms)
        \<and> (me_type entry = Knowledge \<or> me_type entry = Pattern)
        \<and> calculateRelevance sfy query (me_content entry) > 3 / 10
        \<and> x = \<lparr>ke_content = contentText sfy (me_content entry),
                 ke_relevance = calculateRelevance sfy query (me_content entry),
                 ke_source = md_source (me_metadata entry),
                 ke_type = entry_type_str (me_type entry)\<rparr>)"
  unfolding searchMemoryEntries_def Let_def
  by (auto split: if_splits)

lemma searchKnowledgeGraph_relevance:
  "x \<in> set (searchKnowledgeGraph sfy ms query) \<Longrightarrow> ke_relevance x > 4 / 10"
  unfolding searchKnowledgeGraph_def Let_def
  by (auto split: if_splits)

lemma search_results_subset:
  "set (searchRelevantKnowledge sfy ms query)
     \<subseteq> set (searchMemoryEntries sfy ms query) \<union> set (searchKnowledgeGraph sfy ms query)"
  unfolding searchRelevantKnowledge_def Let_def
  using set_take_subset [of 10 "sort_key (\<lambda>e. - ke_relevance e)
          (searchMemoryEntries sfy ms query @ searchKnowledgeGraph sfy ms query)"]
  by auto

lemma search_results_relevance:
  assumes "x \<in> set (searchRelevantKnowledge sfy ms query)"
  shows "3 / 10 < ke_relevance x"
proof -
  from assms search_results_subset
  consider "x \<in> set (searchMemoryEntries sfy ms query)" | "x \<in> set (searchKnowledgeGraph sfy ms query)"
    by blast
  then show ?thesis
  proof cases
    case 1
    then show ?thesis by (auto simp: searchMemoryEntries_iff)
  next
    case 2
    from searchKnowledgeGraph_relevance [OF this] show ?thesis by simp
  qed
qed

lemma entry_type_str_inj: "entry_type_str a = entry_type_str b \<Longrightarrow> a = b"
  by (cases a; cases b) simp_all

lemma entry_admitted_iff:
  assumes "(key, entry) \<in> set (memory ms)"
  shows "\<lparr>ke_content = contentText sfy (me_content entry),
          ke_relevance = calculateRelevance sfy query (me_content entry),
          ke_source = md_source (me_metadata entry),
          ke_type = entry_type_str (me_type entry)\<rparr> \<in> set (searchMemoryEntries sfy ms query)
         \<longleftrightarrow> (me_type entry = Knowledge \<or> me_type entry = Pattern)
               \<and> 3 / 10 < calculateRelevance sfy query (me_content entry)"
  using assms by (auto simp: searchMemoryEntries_iff dest: entry_type_str_inj)

lemma words_sentence:
  "split_nonword (toLowerCase ''I got a database connection error today'')
     = [''i'', ''got'', ''a'', ''database'', ''connection'', ''error'', ''today'']"
  by (simp add: split_nonword_def toLowerCase_def lowerChar_def isWordChar_def)

lemma words_database_error:
  "split_nonword (toLowerCase ''database error'') = [''database'', ''error'']"
  by (simp add: split_nonword_def toLowerCase_def lowerChar_def isWordChar_def)

lemma words_quantum_physics:
  "split_nonword (toLowerCase ''quantum physics'') = [''quantum'', ''physics'']"
  by (simp add: split_nonword_def toLowerCase_def lowerChar_def isWordChar_def)

lemma relevance_database_error:
  "calculateRelevance sfy ''database error'' (JStr ''I got a database connection error today'') = 1"
  by (simp add: calculateRelevance_def contentText_def words_sentence words_database_error
      arr_includes_def)

lemma relevance_quantum_physics:
  "calculateRelevance sfy ''quantum physics'' (JStr ''I got a database connection error today'') = 0"
  by (simp add: calculateRelevance_def contentText_def words_sentence words_quantum_physics
      arr_includes_def)

lemma search_database_error:
  "searchRelevantKnowledge sfy sentence_memory ''database error''
     = [\<lparr>ke_content = ''I got a database connection error today'', ke_relevance = 1,
         ke_source = ''conversation'', ke_type = ''knowledge''\<rparr>]"
  by (simp add: searchRelevantKnowledge_def searchMemoryEntries_def searchKnowledgeGraph_def
      sentence_memory_def sentence_entry_def empty_memory_def relevance_database_error
      contentText_def)

lemma search_quantum_physics:
  "searchRelevantKnowledge sfy sentence_memory ''quantum physics'' = []"
  by (simp add: searchRelevantKnowledge_def searchMemoryEntries_def searchKnowledgeGraph_def
      sentence_memory_def sentence_entry_def empty_memory_def relevance_quantum_physics
      contentText_def)

section \<open>Tool eligibility and model selection\<close>

lemma capabilities_match_iff:
  "toolCapabilitiesMatchRequest t request \<longleftrightarrow>
     set (tool_capabilities t) \<inter> set (requiredCapabilities (req_type request)) \<noteq> {}"
  by (auto simp: toolCapabilitiesMatchRequest_def list_ex_iff arr_includes_def)

lemma findModel_Some:
  "findModel ps n = Some m \<Longrightarrow>
     name_matches n m \<and> (\<exists>p \<in> set ps. \<exists>models. p_listModels p = Inr models \<and> m \<in> set models)"
proof (induction ps)
  case Nil
  then show ?case by simp
next
  case (Cons p ps)
  show ?case
  proof (cases "p_listModels p")
    case (Inl e)
    with Cons show ?thesis by auto
  next
    case (Inr models)
    show ?thesis
    proof (cases "find (name_matches n) models")
      case None
      with Cons Inr show ?thesis by auto
    next
      case (Some m')
      with Cons.prems Inr have "m' = m" by simp
      with Some Inr show ?thesis by (auto simp: find_Some_iff)
    qed
  qed
qed

lemma findModel_None_iff:
  "findModel ps n = None \<longleftrightarrow>
     (\<forall>p \<in> set ps. \<forall>models. p_listModels p = Inr models \<longrightarrow> (\<forall>m \<in> set models. \<not> name_matches n m))"
proof (induction ps)
  case Nil
  then show ?case by simp
next
  case (Cons p ps)
  show ?case
  proof (cases "p_listModels p")
    case (Inl e)
    with Cons show ?thesis by auto
  next
    case (Inr models)
    show ?thesis
    proof (cases "find (name_matches n) models")
      case None
      then have "\<forall>m \<in> set models. \<not> name_matches n m"
        by (simp add: find_None_iff)
      with Cons Inr None show ?thesis by auto
    next
      case (Some m')
      then have "m' \<in> set models" "name_matches n m'"
        by (auto simp: find_Some_iff)
      with Some Inr show ?thesis by auto
    qed
  qed
qed

lemma selectModel_preferred:
  "modelName \<noteq> [] \<Longrightarrow> findModel ps modelName = Some m \<Longrightarrow>
     selectModel ps cur tt (Some modelName) = (Inr m, Some m)"
  by (simp add: selectModel_def)

lemma firstFound_first:
  "names = pre @ n # post \<Longrightarrow> \<forall>n' \<in> set pre. findModel ps n' = None \<Longrightarrow> findModel ps n = Some m
     \<Longrightarrow> firstFound ps names = Some m"
  by (induction pre arbitrary: names) auto

lemma firstFound_none:
  "\<forall>n \<in> set names. findModel ps n = None \<Longrightarrow> firstFound ps names = None"
  by (induction names) auto

lemma getAvailableModels_concat:
  "getAvailableModels ps =
     concat (map (\<lambda>p. case p_listModels p of Inr models \<Rightarrow> models | Inl e \<Rightarrow> [])
                 (filter (\<lambda>p. p_isAvailable p = Inr True) ps))"
  by (induction ps) (auto split: sum.splits)

lemma selectModel_failed_current:
  "selectModel ps cur tt pm = (Inl err, cur') \<Longrightarrow> cur' = cur"
  by (auto simp: selectModel_def split: option.splits sum.splits if_splits)

lemma selectModel_Inr_current:
  "selectModel ps cur tt pm = (Inr m, cur') \<Longrightarrow> cur' = Some m"
  by (auto simp: selectModel_def split: option.splits sum.splits if_splits)

lemma preferredModels_table:
  "map (\<lambda>ty. preferredModels (taskType ty)) [Chat, Command, Analysis, Refactor, Debug, Test]
     = [[''gpt-4o'', ''claude-3-5-sonnet'', ''gemini-pro'', ''codellama''],
        [''codellama'', ''starcoder'', ''deepseek-coder'', ''gpt-4o''],
        [''claude-3-5-sonnet'', ''gpt-4o'', ''gemini-pro'', ''codellama:13b''],
        [''codellama'', ''starcoder'', ''deepseek-coder'', ''gpt-4o''],
        [''codellama'', ''starcoder'', ''gpt-4o'', ''claude-3-5-sonnet''],
        [''codellama'', ''gpt-4o'', ''claude-3-5-sonnet'', ''starcoder'']]"
  by (simp add: preferredModels_def taskModelMap_def)

lemma selectModel_fallback:
  "preferredModel = None \<or> preferredModel = Some [] \<or> (\<exists>n. preferredModel = Some n \<and> findModel ps n = None) \<Longrightarrow>
     fst (selectModel ps cur tt preferredModel) = selectModelByTaskType ps tt"
  by (auto simp: selectModel_def split: sum.splits option.splits)

section \<open>The paths of \<open>execute\<close>\<close>

lemma execute_finally_simps:
  "activeRequests (execute_finally r s) = AList.delete (req_id r) (activeRequests s)"
  "events (execute_finally r s) = events s @ [RequestEnded (req_id r)]"
  "mem (execute_finally r s) = mem s"
  "toolLog (execute_finally r s) = toolLog s"
  "currentModel (execute_finally r s) = currentModel s"
  "aborted (execute_finally r s) = aborted s"
  "nextController (execute_finally r s) = nextController s"
  by (simp_all add: execute_finally_def)

lemma execute_finish_select_failed:
  assumes "fst (orch_selectModel e (currentModel s) r) = Inl err"
  shows "execute_finish e r c s = (errorResponse r err, execute_finally r s)"
proof -
  obtain cur where sel: "orch_selectModel e (currentModel s) r = (Inl err, cur)"
    using assms by (cases "orch_selectModel e (currentModel s) r") simp
  then have "cur = currentModel s"
    unfolding orch_selectModel_def by (rule selectModel_failed_current)
  with sel show ?thesis by (simp add: execute_finish_def)
qed

lemma execute_finish_call_failed:
  assumes "orch_selectModel e (currentModel s) r = (Inr model, cur)"
    and "modelCall e r c s model = Inl err"
  shows "execute_finish e r c s =
     (errorResponse r err,
      execute_finally r (s\<lparr>currentModel := cur, toolLog := toolLog s @ snd (executeTools e r)\<rparr>))"
  using assms by (simp add: execute_finish_def Let_def split: prod.splits)

lemma execute_finish_success:
  assumes "orch_selectModel e (currentModel s) r = (Inr model, cur)"
    and "modelCall e r c s model = Inr modelResponse"
  shows "execute_finish e r c s =
     (let toolResults = fst (executeTools e r);
          enhancedResponse = enhanceResponse (env_sfy e) modelResponse toolResults;
          response = successResponse e r model enhancedResponse toolResults
      in (response,
          execute_finally r
            (s\<lparr>currentModel := cur,
               toolLog := toolLog s @ snd (executeTools e r),
               mem := storeInteraction (env_now e) (env_rnd e) r (er_content enhancedResponse) (mem s),
               events := events s @ [ResponseReceived response]\<rparr>)))"
  using assms by (simp add: execute_finish_def Let_def split: prod.splits)

lemma execute_finish_cases [case_names select_failed call_failed success]:
  obtains
    (select_failed) err where
      "fst (orch_selectModel e (currentModel s) r) = Inl err"
      "modelAnswer e r c s = Inl err"
      "execute_finish e r c s = (errorResponse r err, execute_finally r s)"
  | (call_failed) model cur err where
      "orch_selectModel e (currentModel s) r = (Inr model, cur)"
      "modelCall e r c s model = Inl err"
      "modelAnswer e r c s = Inl err"
      "execute_finish e r c s =
         (errorResponse r err,
          execute_finally r (s\<lparr>currentModel := cur, toolLog := toolLog s @ snd (executeTools e r)\<rparr>))"
  | (success) model cur modelResponse where
      "orch_selectModel e (currentModel s) r = (Inr model, cur)"
      "modelCall e r c s model = Inr modelResponse"
      "modelAnswer e r c s = Inr modelResponse"
      "execute_finish e r c s =
         (successResponse e r model
            (enhanceResponse (env_sfy e) modelResponse (fst (executeTools e r))) (fst (executeTools e r)),
          execute_finally r
            (s\<lparr>currentModel := cur,
               toolLog := toolLog s @ snd (executeTools e r),
               mem := storeInteraction (env_now e) (env_rnd e) r
                        (er_content (enhanceResponse (env_sfy e) modelResponse (fst (executeTools e r))))
                        (mem s),
               events := events s @ [ResponseReceived (successResponse e r model
                  (enhanceResponse (env_sfy e) modelResponse (fst (executeTools e r)))
                  (fst (executeTools e r)))]\<rparr>))"
proof -
  obtain res cur where sel: "orch_selectModel e (currentModel s) r = (res, cur)"
    by (cases "orch_selectModel e (currentModel s) r")
  show thesis
  proof (cases res)
    case (Inl err)
    with sel have f: "fst (orch_selectModel e (currentModel s) r) = Inl err" by simp
    then have "modelAnswer e r c s = Inl err" by simp
    with f execute_finish_select_failed [OF f] select_failed show thesis by blast
  next
    case (Inr model)
    with sel have sel': "orch_selectModel e (currentModel s) r = (Inr model, cur)" by simp
    show thesis
    proof (cases "modelCall e r c s model")
      case (Inl err)
      with sel' have "modelAnswer e r c s = Inl err" by simp
      with sel' Inl execute_finish_call_failed [OF sel' Inl] call_failed show thesis by blast
    next
      case i: (Inr modelResponse)
      with sel' have "modelAnswer e r c s = Inr modelResponse" by simp
      with sel' i execute_finish_success [OF sel' i] success show thesis
        by (simp add: Let_def)
    qed
  qed
qed

lemma errorResponse_simps:
  "resp_id (errorResponse r err) = req_id r @ ''_error''"
  "resp_requestId (errorResponse r err) = req_id r"
  "resp_content (errorResponse r err) = []"
  "resp_tools (errorResponse r err) = None"
  "resp_error (errorResponse r err) = Some (error_message ''Unknown error occurred'' err)"
  "resp_metadata (errorResponse r err) = None"
  by (simp_all add: errorResponse_def)

lemma successResponse_simps:
  "resp_id (successResponse e r model er trs) = req_id r @ ''_response''"
  "resp_requestId (successResponse e r model er trs) = req_id r"
  "resp_content (successResponse e r model er trs) = er_content er"
  "resp_tools (successResponse e r model er trs) = Some trs"
  "resp_error (successResponse e r model er trs) = None"
  "map_option meta_model (resp_metadata (successResponse e r model er trs)) = Some (mi_name model)"
  "map_option meta_provider (resp_metadata (successResponse e r model er trs)) = Some (mi_provider model)"
  by (simp_all add: successResponse_def)

lemma execute_finish_error_iff:
  "resp_error (fst (execute_finish e r c s)) \<noteq> None \<longleftrightarrow> (\<exists>err. modelAnswer e r c s = Inl err)"
  by (cases rule: execute_finish_cases [of e s r c])
     (simp_all add: errorResponse_simps successResponse_simps)

lemma execute_finish_failure:
  assumes "modelAnswer e r c s = Inl err"
  shows "fst (execute_finish e r c s) = errorResponse r err"
    and "events (snd (execute_finish e r c s)) = events s @ [RequestEnded (req_id r)]"
    and "mem (snd (execute_finish e r c s)) = mem s"
  using assms
  by (cases rule: execute_finish_cases [of e s r c]; simp add: execute_finally_simps)+

lemma execute_finish_events:
  "events (snd (execute_finish e r c s)) =
     events s
     @ (case resp_error (fst (execute_finish e r c s)) of
          None \<Rightarrow> [ResponseReceived (fst (execute_finish e r c s))]
        | Some message \<Rightarrow> [])
     @ [RequestEnded (req_id r)]"
  by (cases rule: execute_finish_cases [of e s r c])
     (simp_all add: errorResponse_simps successResponse_simps execute_finally_simps)

lemma execute_finish_inactive:
  "req_id r \<notin> set (st_activeRequests (getStatus (snd (execute_finish e r c s))))"
proof -
  have "req_id r \<notin> set (map fst (activeRequests (execute_finally r s')))" for s'
    using delete_notin_dom [of "req_id r" "activeRequests s'"]
    by (simp add: execute_finally_simps)
  then show ?thesis
    by (cases rule: execute_finish_cases [of e s r c]) (simp_all add: getStatus_def)
qed

lemma execute_begin_simps:
  "fst (execute_begin r s) = nextController s"
  "activeRequests (snd (execute_begin r s)) = AList.update (req_id r) (nextController s) (activeRequests s)"
  "events (snd (execute_begin r s)) = events s @ [RequestStarted r]"
  "mem (snd (execute_begin r s)) = mem s"
  "toolLog (snd (execute_begin r s)) = toolLog s"
  "currentModel (snd (execute_begin r s)) = currentModel s"
  "aborted (snd (execute_begin r s)) = aborted s"
  "nextController (snd (execute_begin r s)) = Suc (nextController s)"
  by (simp_all add: execute_begin_def Let_def)

lemma execute_split:
  "execute e r s = execute_finish e r (nextController s) (snd (execute_begin r s))"
  by (simp add: execute_def execute_begin_def Let_def)

lemma modelAnswer_begin:
  "modelAnswer e r c (snd (execute_begin r s)) = modelAnswer e r c s"
  by (simp add: execute_begin_simps execOptions_def split: sum.splits)

lemma modelAnswer_tools:
  "modelAnswer (e\<lparr>env_tools := tools', env_enabledTools := enabled'\<rparr>) r c s = modelAnswer e r c s"
  by (simp add: orch_selectModel_def gatherContext_def split: sum.splits)

lemma runTools_names: "map tr_name (fst (runTools cwd r ts)) = map tool_name ts"
  by (induction ts) (auto simp: Let_def executeTool_def split: prod.splits sum.splits)

lemma runTools_failed:
  assumes "t \<in> set ts" and "snd (tool_execute t (toolContext cwd r)) = Inl err"
  shows "\<lparr>tr_name = tool_name t, tr_result = JNull,
          tr_error = Some (error_message ''Tool execution failed'' err), tr_duration = 0\<rparr>
           \<in> set (fst (runTools cwd r ts))"
    and "ToolFailed (tool_name t) (req_id r) err (fst (tool_execute t (toolContext cwd r)))
           \<in> set (snd (runTools cwd r ts))"
  using assms
  by (induction ts; auto simp: Let_def executeTool_def split: prod.splits sum.splits)+

lemma getConversationHistory_storeInteraction:
  "getConversationHistory (storeInteraction now rnd r content ms) (req_id r) =
     getConversationHistory ms (req_id r)
     @ [\<lparr>cm_role = User, cm_content = req_content r, cm_timestamp = now\<rparr>,
        \<lparr>cm_role = Assistant, cm_content = content, cm_timestamp = now\<rparr>]"
proof -
  have ek: "conversations (extractKnowledge now rnd r content ms') = conversations ms'" for ms'
    by (simp add: extractKnowledge_def extractCodePatterns_def Let_def split: option.splits)
  show ?thesis
    by (simp add: storeInteraction_def updateConversationSummary_def getConversationHistory_def
        Let_def ek update_conv' split: option.splits)
qed

lemma execute_error_iff:
  "resp_error (fst (execute e r s)) \<noteq> None \<longleftrightarrow> (\<exists>err. modelAnswer e r (nextController s) s = Inl err)"
  unfolding execute_split execute_finish_error_iff modelAnswer_begin ..

lemma execute_finish_toolLog:
  "fst (orch_selectModel e (currentModel s) r) = Inr model \<Longrightarrow>
     toolLog (snd (execute_finish e r c s)) = toolLog s @ snd (executeTools e r)"
  by (cases rule: execute_finish_cases [of e s r c]) (simp_all add: execute_finally_simps)

lemma execute_events:
  "events (snd (execute e r s)) =
     events s @ [RequestStarted r]
     @ (case resp_error (fst (execute e r s)) of
          None \<Rightarrow> [ResponseReceived (fst (execute e r s))]
        | Some message \<Rightarrow> [])
     @ [RequestEnded (req_id r)]"
  unfolding execute_split
  using execute_finish_events [of e r "nextController s" "snd (execute_begin r s)"]
  by (simp add: execute_begin_simps)

lemma execute_finish_selected:
  assumes "fst (orch_selectModel e (currentModel s) r) = Inr m"
    and "resp_error (fst (execute_finish e r c s)) = None"
  shows "map_option meta_model (resp_metadata (fst (execute_finish e r c s))) = Some (mi_name m)"
    and "map_option meta_provider (resp_metadata (fst (execute_finish e r c s))) = Some (mi_provider m)"
    and "currentModel (snd (execute_finish e r c s)) = Some m"
proof -
  obtain cur where sel: "orch_selectModel e (currentModel s) r = (Inr m, cur)"
    using assms(1) by (cases "orch_selectModel e (currentModel s) r") simp
  then have cur: "cur = Some m"
    unfolding orch_selectModel_def by (rule selectModel_Inr_current)
  show "map_option meta_model (resp_metadata (fst (execute_finish e r c s))) = Some (mi_name m)"
    "map_option meta_provider (resp_metadata (fst (execute_finish e r c s))) = Some (mi_provider m)"
    "currentModel (snd (execute_finish e r c s)) = Some m"
    using assms sel cur
    by (cases rule: execute_finish_cases [of e s r c];
        simp add: errorResponse_simps successResponse_simps execute_finally_simps)+
qed

section \<open>The scenario, evaluated\<close>

lemma scenario_findModel_gpt:
  "findModel (env_providers (scenario_env a)) ''gpt-4o''
     = Some (openaiModel ''gpt-4o'' [''chat'', ''code'', ''instruction'', ''analysis''] 128000 (3 / 100000))"
  by (simp add: scenario_env_def initializeProviders_def HuggingFaceProvider_def OllamaProvider_def
      OpenAIProvider_def name_matches_def hfModel_def openaiModel_def)

lemma scenario_findModel_codellama:
  "findModel (env_providers (scenario_env a)) ''codellama''
     = Some (hfModel ''codellama'' [''code'', ''chat'', ''instruction''] 16384)"
  by (simp add: scenario_env_def initializeProviders_def HuggingFaceProvider_def name_matches_def
      hfModel_def)

lemma scenario_select_r1:
  "orch_selectModel (scenario_env a) cur r1
     = (Inr (hfModel ''codellama'' [''code'', ''chat'', ''instruction''] 16384),
        Some (hfModel ''codellama'' [''code'', ''chat'', ''instruction''] 16384))"
  by (simp add: orch_selectModel_def selectModel_def selectModelByTaskType_def preferredModels_def
      taskModelMap_def r1_def req_model_def scenario_findModel_codellama)

lemma scenario_select_r1_gpt:
  "orch_selectModel (scenario_env a) cur r1_gpt
     = (Inr (openaiModel ''gpt-4o'' [''chat'', ''code'', ''instruction'', ''analysis''] 128000 (3 / 100000)),
        Some (openaiModel ''gpt-4o'' [''chat'', ''code'', ''instruction'', ''analysis''] 128000 (3 / 100000)))"
  by (simp add: orch_selectModel_def selectModel_def r1_gpt_def r1_def req_model_def
      scenario_findModel_gpt)

lemma scenario_tools_debug:
  "req_type r = Debug \<Longrightarrow> getToolsForRequest (env_enabledTools (scenario_env a)) (env_tools (scenario_env a)) r
     = [createFileReadTool (\<lambda>c. (3, Inl (Error ''path is required''))),
        createTerminalCommandTool (\<lambda>c. (7, Inr (JObj [(''exitCode'', JNum 0)])))]"
  by (simp add: getToolsForRequest_def scenario_env_def scenario_tools_def registerTool_def
      createFileReadTool_def createTerminalCommandTool_def createDatabaseQueryTool_def
      toolCapabilitiesMatchRequest_def arr_includes_def)

lemma scenario_executeTools:
  "req_type r = Debug \<Longrightarrow> executeTools (scenario_env a) r
     = ([\<lparr>tr_name = ''read_file'', tr_result = JNull, tr_error = Some ''path is required'', tr_duration = 0\<rparr>,
         \<lparr>tr_name = ''run_terminal_command'', tr_result = JObj [(''exitCode'', JNum 0)],
          tr_error = None, tr_duration = 7\<rparr>],
        [ToolExecuting ''read_file'' (req_id r),
         ToolFailed ''read_file'' (req_id r) (Error ''path is required'') 3,
         ToolExecuting ''run_terminal_command'' (req_id r),
         ToolCompleted ''run_terminal_command'' (req_id r) 7])"
  by (simp add: executeTools_def scenario_tools_debug executeTool_def error_message_def
      createFileReadTool_def createTerminalCommandTool_def)

lemma scenario_call_gpt:
  "modelCall (scenario_env a) r c s
      (openaiModel ''gpt-4o'' [''chat'', ''code'', ''instruction'', ''analysis''] 128000 (3 / 100000))
     = a (prepareModelRequest r (gatherContext (scenario_env a) (mem s) r)
            (openaiModel ''gpt-4o'' [''chat'', ''code'', ''instruction'', ''analysis''] 128000 (3 / 100000)))
         (execOptions r c s)"
  by (simp add: ModelManager_execute_def prepareModelRequest_def openaiModel_def scenario_env_def
      initializeProviders_def HuggingFaceProvider_def OllamaProvider_def OpenAIProvider_def)

lemma scenario_call_codellama:
  "modelCall (scenario_env a) r c s (hfModel ''codellama'' [''code'', ''chat'', ''instruction''] 16384)
     = Inr \<lparr>mr_content = ''Hugging Face codellama response'', mr_tokens = Some 150,
            mr_confidence = None\<rparr>"
  by (simp add: ModelManager_execute_def prepareModelRequest_def hfModel_def scenario_env_def
      initializeProviders_def HuggingFaceProvider_def)

lemma scenario_refused:
  "modelAnswer (scenario_env refusing) r1_gpt c s = Inl (Error ''OpenAI API error: Unauthorized'')"
  by (simp add: scenario_select_r1_gpt scenario_call_gpt refusing_def)

lemma scenario_answered:
  "modelAnswer (scenario_env a) r1 c s
     = Inr \<lparr>mr_content = ''Hugging Face codellama response'', mr_tokens = Some 150,
            mr_confidence = None\<rparr>"
  by (simp add: scenario_select_r1 scenario_call_codellama)

lemma scenario_ids: "req_id r1_gpt = ''r1''" "req_id r1 = ''r1''"
  by (simp_all add: r1_gpt_def r1_def)

lemma scenario_cancelled:
  "modelAnswer (scenario_env answering) r1_gpt 0 (cancel ''r1'' (snd (execute_begin r1_gpt idle)))
     = Inl (Error ''The operation was aborted'')"
proof -
  have "0 \<in> aborted (cancel ''r1'' (snd (execute_begin r1_gpt idle)))"
    by (simp add: cancel_def execute_begin_def Let_def idle_def scenario_ids)
  then show ?thesis
    unfolding scenario_select_r1_gpt fst_conv sum.case scenario_call_gpt
    by (simp add: answering_def execOptions_def)
qed

lemma scenario_gpt_answered:
  "modelAnswer (scenario_env answering) r1_gpt 0 idle
     = Inr \<lparr>mr_content = ''Check the receiver for null.'', mr_tokens = Some 42,
            mr_confidence = None\<rparr>"
  unfolding scenario_select_r1_gpt fst_conv sum.case scenario_call_gpt
  by (simp add: answering_def execOptions_def idle_def)

section \<open>The claims\<close>

text \<open>
  Claim C1, as amended. \<open>execute\<close> does not look the request's id up before it
  registers it. A call made while a request with the same id is in flight is not rejected:
  it puts a new controller under the id, in place of the one in flight and without adding
  an entry, and fires the start event. It then runs as every call does: its response
  carries an error exactly when the model selection or the model call throws (so also for
  the rest of the call on whatever state it finds), the tools run once a model is
  selected, and its events are those of any call. Of two submissions with the same id that
  both start before either ends, both fire their start event, each with a controller of
  its own, and the second one's is the one registered.
\<close>
theorem duplicate_submission_proceeds:
  assumes "map_of (activeRequests s) (req_id r) = Some inFlight"
  shows "map_of (activeRequests (snd (execute_begin r s))) (req_id r) = Some (nextController s)
   \<and> map fst (activeRequests (snd (execute_begin r s))) = map fst (activeRequests s)
   \<and> events (snd (execute_begin r s)) = events s @ [RequestStarted r]
   \<and> (resp_error (fst (execute e r s)) \<noteq> None
        \<longleftrightarrow> (\<exists>err. modelAnswer e r (nextController s) s = Inl err))
   \<and> (resp_error (fst (execute_finish e r c s')) \<noteq> None
        \<longleftrightarrow> (\<exists>err. modelAnswer e r c s' = Inl err))
   \<and> (\<forall>model. fst (orch_selectModel e (currentModel s) r) = Inr model \<longrightarrow>
          toolLog (snd (execute e r s)) = toolLog s @ snd (executeTools e r))
   \<and> events (snd (execute e r s)) =
       events s @ [RequestStarted r]
       @ (case resp_error (fst (execute e r s)) of
            None \<Rightarrow> [ResponseReceived (fst (execute e r s))]
          | Some message \<Rightarrow> [])
       @ [RequestEnded (req_id r)]
   \<and> events (snd (execute_begin r (snd (execute_begin r s0))))
       = events s0 @ [RequestStarted r, RequestStarted r]
   \<and> fst (execute_begin r (snd (execute_begin r s0))) \<noteq> fst (execute_begin r s0)
   \<and> map_of (activeRequests (snd (execute_begin r (snd (execute_begin r s0))))) (req_id r)
       = Some (fst (execute_begin r (snd (execute_begin r s0))))"
proof -
  from map_of_SomeD [OF assms] have "req_id r \<in> fst ` set (activeRequests s)"
    by force
  then have keys: "map fst (activeRequests (snd (execute_begin r s))) = map fst (activeRequests s)"
    by (simp add: execute_begin_simps update_keys)
  have tools: "\<forall>model. fst (orch_selectModel e (currentModel s) r) = Inr model \<longrightarrow>
          toolLog (snd (execute e r s)) = toolLog s @ snd (executeTools e r)"
  proof (intro allI impI)
    fix model
    assume "fst (orch_selectModel e (currentModel s) r) = Inr model"
    then have "fst (orch_selectModel e (currentModel (snd (execute_begin r s))) r) = Inr model"
      by (simp add: execute_begin_simps)
    from execute_finish_toolLog [OF this]
    show "toolLog (snd (execute e r s)) = toolLog s @ snd (executeTools e r)"
      by (simp add: execute_split execute_begin_simps)
  qed
  have begins: "map_of (activeRequests (snd (execute_begin r s))) (req_id r) = Some (nextController s)
   \<and> events (snd (execute_begin r s)) = events s @ [RequestStarted r]
   \<and> events (snd (execute_begin r (snd (execute_begin r s0))))
       = events s0 @ [RequestStarted r, RequestStarted r]
   \<and> fst (execute_begin r (snd (execute_begin r s0))) \<noteq> fst (execute_begin r s0)
   \<and> map_of (activeRequests (snd (execute_begin r (snd (execute_begin r s0))))) (req_id r)
       = Some (fst (execute_begin r (snd (execute_begin r s0))))"
    by (simp add: execute_begin_simps update_conv')
  from keys tools begins execute_events [of e r s]
    execute_error_iff [where e=e and r=r and s=s]
    execute_finish_error_iff [where e=e and r=r and c=c and s=s']
  show ?thesis by blast
qed

theorem duplicate_submission_proceeds_witness:
  "map_of (activeRequests (snd (execute_begin r1 idle))) (req_id r1) = Some 0
   \<and> map_of (activeRequests (snd (execute_begin r1 (snd (execute_begin r1 idle))))) (req_id r1) = Some 1
   \<and> map fst (activeRequests (snd (execute_begin r1 (snd (execute_begin r1 idle))))) = [''r1'']
   \<and> events (snd (execute_begin r1 (snd (execute_begin r1 idle))))
       = [RequestStarted r1, RequestStarted r1]
   \<and> resp_error (fst (execute (scenario_env answering) r1 (snd (execute_begin r1 idle)))) = None
   \<and> toolLog (snd (execute (scenario_env answering) r1 (snd (execute_begin r1 idle))))
       = [ToolExecuting ''read_file'' ''r1'',
          ToolFailed ''read_file'' ''r1'' (Error ''path is required'') 3,
          ToolExecuting ''run_terminal_command'' ''r1'',
          ToolCompleted ''run_terminal_command'' ''r1'' 7]"
proof -
  have inflight: "map_of (activeRequests (snd (execute_begin r1 idle))) (req_id r1) = Some 0"
    by (simp add: execute_begin_def Let_def idle_def)
  note t = duplicate_submission_proceeds [OF inflight, where e="scenario_env answering"
      and ?s0.0=idle and c=0 and s'=idle]
  have first: "nextController (snd (execute_begin r1 idle)) = 1"
    "map fst (activeRequests (snd (execute_begin r1 idle))) = [''r1'']"
    "events idle = []"
    "toolLog (snd (execute_begin r1 idle)) = []"
    by (simp_all add: execute_begin_def Let_def idle_def scenario_ids)
  have debug: "req_type r1 = Debug" by (simp add: r1_def)
  from t have "map_of (activeRequests (snd (execute_begin r1 (snd (execute_begin r1 idle))))) (req_id r1)
      = Some (nextController (snd (execute_begin r1 idle)))"
    by (elim conjE)
  then have 2: "map_of (activeRequests (snd (execute_begin r1 (snd (execute_begin r1 idle))))) (req_id r1) = Some 1"
    unfolding first by simp
  from t have "map fst (activeRequests (snd (execute_begin r1 (snd (execute_begin r1 idle)))))
      = map fst (activeRequests (snd (execute_begin r1 idle)))"
    by (elim conjE)
  then have 3: "map fst (activeRequests (snd (execute_begin r1 (snd (execute_begin r1 idle))))) = [''r1'']"
    unfolding first .
  from t have "events (snd (execute_begin r1 (snd (execute_begin r1 idle))))
      = events idle @ [RequestStarted r1, RequestStarted r1]"
    by (elim conjE)
  then have 4: "events (snd (execute_begin r1 (snd (execute_begin r1 idle))))
       = [RequestStarted r1, RequestStarted r1]"
    unfolding first by simp
  from t have "resp_error (fst (execute (scenario_env answering) r1 (snd (execute_begin r1 idle)))) \<noteq> None
      \<longleftrightarrow> (\<exists>err. modelAnswer (scenario_env answering) r1
              (nextController (snd (execute_begin r1 idle))) (snd (execute_begin r1 idle)) = Inl err)"
    by (elim conjE)
  then have 5: "resp_error (fst (execute (scenario_env answering) r1 (snd (execute_begin r1 idle)))) = None"
    unfolding scenario_answered by simp
  from t have "\<forall>model. fst (orch_selectModel (scenario_env answering)
            (currentModel (snd (execute_begin r1 idle))) r1) = Inr model \<longrightarrow>
          toolLog (snd (execute (scenario_env answering) r1 (snd (execute_begin r1 idle))))
            = toolLog (snd (execute_begin r1 idle)) @ snd (executeTools (scenario_env answering) r1)"
    by (elim conjE)
  then have 6: "toolLog (snd (execute (scenario_env answering) r1 (snd (execute_begin r1 idle))))
       = [ToolExecuting ''read_file'' ''r1'',
          ToolFailed ''read_file'' ''r1'' (Error ''path is required'') 3,
          ToolExecuting ''run_terminal_command'' ''r1'',
          ToolCompleted ''run_terminal_command'' ''r1'' 7]"
    by (simp add: scenario_select_r1 first scenario_executeTools [OF debug] scenario_ids)
  from inflight 2 3 4 5 6 show ?thesis by blast
qed

text \<open>
  The claim as it is written fails in the scenario: with \<open>r1\<close> in flight, a second
  \<open>execute\<close> of \<open>r1\<close> returns a response without an error, having fired a second start
  event, registered a second controller and run the tools.
\<close>

theorem duplicate_rejected_counterexample:
  "req_id r1 \<in> set (st_activeRequests (getStatus (snd (execute_begin r1 idle))))
   \<and> resp_error (fst (execute (scenario_env answering) r1 (snd (execute_begin r1 idle)))) = None
   \<and> events (snd (execute (scenario_env answering) r1 (snd (execute_begin r1 idle))))
       = [RequestStarted r1, RequestStarted r1,
          ResponseReceived (fst (execute (scenario_env answering) r1 (snd (execute_begin r1 idle)))),
          RequestEnded ''r1'']
   \<and> map_of (activeRequests (snd (execute_begin r1 (snd (execute_begin r1 idle))))) ''r1'' = Some 1
   \<and> toolLog (snd (execute (scenario_env answering) r1 (snd (execute_begin r1 idle))))
       = [ToolExecuting ''read_file'' ''r1'',
          ToolFailed ''read_file'' ''r1'' (Error ''path is required'') 3,
          ToolExecuting ''run_terminal_command'' ''r1'',
          ToolCompleted ''run_terminal_command'' ''r1'' 7]"
proof -
  define s where "s = snd (execute_begin r1 idle)"
  have s: "activeRequests s = [(''r1'', 0)]" "events s = [RequestStarted r1]" "toolLog s = []"
    by (simp_all add: s_def execute_begin_def Let_def idle_def scenario_ids)
  have debug: "req_type r1 = Debug" by (simp add: r1_def)
  have 1: "req_id r1 \<in> set (st_activeRequests (getStatus s))"
    by (simp add: getStatus_def s scenario_ids)
  have 2: "resp_error (fst (execute (scenario_env answering) r1 s)) = None"
    using execute_error_iff [where e="scenario_env answering" and r=r1 and s=s]
    unfolding scenario_answered by simp
  have 3: "events (snd (execute (scenario_env answering) r1 s))
       = [RequestStarted r1, RequestStarted r1,
          ResponseReceived (fst (execute (scenario_env answering) r1 s)), RequestEnded ''r1'']"
    using execute_events [of "scenario_env answering" r1 s] 2 by (simp add: s scenario_ids)
  have 4: "map_of (activeRequests (snd (execute_begin r1 s))) ''r1'' = Some 1"
    by (simp add: s_def execute_begin_def Let_def idle_def scenario_ids)
  have "toolLog (snd (execute (scenario_env answering) r1 s))
      = toolLog (snd (execute_begin r1 s)) @ snd (executeTools (scenario_env answering) r1)"
    unfolding execute_split
    by (rule execute_finish_toolLog) (simp add: scenario_select_r1)
  then have 5: "toolLog (snd (execute (scenario_env answering) r1 s))
       = [ToolExecuting ''read_file'' ''r1'',
          ToolFailed ''read_file'' ''r1'' (Error ''path is required'') 3,
          ToolExecuting ''run_terminal_command'' ''r1'',
          ToolCompleted ''run_terminal_command'' ''r1'' 7]"
    by (simp add: execute_begin_simps s scenario_executeTools [OF debug] scenario_ids)
  from 1 2 3 4 5 show ?thesis unfolding s_def by blast
qed

text \<open>
  Claim C2. Whatever a call of \<open>execute\<close> meets (every environment, every state the rest
  of the call may find, so also one in which the request was cancelled meanwhile), when it
  returns the request's id is not among \<open>getStatus().activeRequests\<close> and the last event
  fired is the "request ended" event for that id. The events of the call are the start
  event, the response event if and only if the response carries no error, and the end
  event, in this order.
\<close>

theorem cleanup_unconditional:
  "req_id r \<notin> set (st_activeRequests (getStatus (snd (execute_finish e r c s))))
   \<and> events (snd (execute_finish e r c s)) =
       events s
       @ (case resp_error (fst (execute_finish e r c s)) of
            None \<Rightarrow> [ResponseReceived (fst (execute_finish e r c s))]
          | Some message \<Rightarrow> [])
       @ [RequestEnded (req_id r)]
   \<and> req_id r \<notin> set (st_activeRequests (getStatus (snd (execute e r s))))
   \<and> events (snd (execute e r s)) =
       events s @ [RequestStarted r]
       @ (case resp_error (fst (execute e r s)) of
            None \<Rightarrow> [ResponseReceived (fst (execute e r s))]
          | Some message \<Rightarrow> [])
       @ [RequestEnded (req_id r)]"
  unfolding execute_split
  using execute_finish_inactive [of r e c s] execute_finish_events [of e r c s]
    execute_finish_inactive [of r e "nextController s" "snd (execute_begin r s)"]
    execute_finish_events [of e r "nextController s" "snd (execute_begin r s)"]
  by (simp add: execute_begin_simps)

theorem cleanup_unconditional_witness:
  "''r1'' \<notin> set (st_activeRequests (getStatus (snd (execute (scenario_env refusing) r1_gpt idle))))
   \<and> events (snd (execute (scenario_env refusing) r1_gpt idle))
       = [RequestStarted r1_gpt, RequestEnded ''r1'']
   \<and> ''r1'' \<notin> set (st_activeRequests (getStatus (snd (execute (scenario_env answering) r1 idle))))
   \<and> last (events (snd (execute (scenario_env answering) r1 idle))) = RequestEnded ''r1''"
proof -
  have failed: "resp_error (fst (execute (scenario_env refusing) r1_gpt idle)) \<noteq> None"
    unfolding execute_error_iff scenario_refused by blast
  note a = cleanup_unconditional [of r1_gpt "scenario_env refusing" 0 idle]
  note b = cleanup_unconditional [of r1 "scenario_env answering" 0 idle]
  from a failed have "events (snd (execute (scenario_env refusing) r1_gpt idle))
       = [RequestStarted r1_gpt, RequestEnded ''r1'']"
    by (auto simp: scenario_ids idle_def)
  moreover from a have "''r1'' \<notin> set (st_activeRequests (getStatus (snd (execute (scenario_env refusing) r1_gpt idle))))"
    by (simp add: scenario_ids)
  moreover from b have "''r1'' \<notin> set (st_activeRequests (getStatus (snd (execute (scenario_env answering) r1 idle))))"
    by (simp add: scenario_ids)
  moreover from b have "last (events (snd (execute (scenario_env answering) r1 idle))) = RequestEnded ''r1''"
    by (simp add: scenario_ids)
  ultimately show ?thesis by blast
qed

text \<open>
Claim C3. \<open>execute\<close> returns a response on every path: the model's function is total,
  its throwing statements being the model selection and the model call, both inside the
  \<open>try\<close> block. The response carries an error exactly when one of them threw. Then the
  response is the error response, with empty content and, as its error, the message of the
  thrown \<open>Error\<close> (or "Unknown error occurred" for any other thrown value), and the call fires
  the start and the end event only, no "response received" event. The same holds for the
  rest of a call on any state it may find. (Context assembly and tool dispatch have no
  failing path in the code: a tool's failure is caught where the tool is called.)
\<close>
theorem execute_always_responds:
  "resp_requestId (fst (execute e r s)) = req_id r
   \<and> (resp_error (fst (execute e r s)) \<noteq> None
        \<longleftrightarrow> (\<exists>err. modelAnswer e r (nextController s) s = Inl err))
   \<and> (\<forall>err. modelAnswer e r (nextController s) s = Inl err \<longrightarrow>
          fst (execute e r s) = errorResponse r err
          \<and> resp_content (fst (execute e r s)) = []
          \<and> resp_error (fst (execute e r s)) = Some (error_message ''Unknown error occurred'' err)
          \<and> events (snd (execute e r s)) = events s @ [RequestStarted r, RequestEnded (req_id r)])
   \<and> resp_requestId (fst (execute_finish e r c s')) = req_id r
   \<and> (resp_error (fst (execute_finish e r c s')) \<noteq> None
        \<longleftrightarrow> (\<exists>err. modelAnswer e r c s' = Inl err))
   \<and> (\<forall>err. modelAnswer e r c s' = Inl err \<longrightarrow>
          fst (execute_finish e r c s') = errorResponse r err
          \<and> events (snd (execute_finish e r c s')) = events s' @ [RequestEnded (req_id r)])"
proof -
  have rid: "resp_requestId (fst (execute_finish e r c' s'')) = req_id r" for c' s''
    by (cases rule: execute_finish_cases [of e s'' r c'])
       (simp_all add: errorResponse_simps successResponse_simps)
  have fin: "\<forall>err. modelAnswer e r c' s'' = Inl err \<longrightarrow>
          fst (execute_finish e r c' s'') = errorResponse r err
          \<and> events (snd (execute_finish e r c' s'')) = events s'' @ [RequestEnded (req_id r)]" for c' s''
    using execute_finish_failure [where e=e and r=r and c=c' and s=s''] by blast
  have ex: "\<forall>err. modelAnswer e r (nextController s) s = Inl err \<longrightarrow>
          fst (execute e r s) = errorResponse r err
          \<and> resp_content (fst (execute e r s)) = []
          \<and> resp_error (fst (execute e r s)) = Some (error_message ''Unknown error occurred'' err)
          \<and> events (snd (execute e r s)) = events s @ [RequestStarted r, RequestEnded (req_id r)]"
  proof (intro allI impI)
    fix err
    assume "modelAnswer e r (nextController s) s = Inl err"
    then have "modelAnswer e r (nextController s) (snd (execute_begin r s)) = Inl err"
      unfolding modelAnswer_begin .
    from execute_finish_failure [OF this]
    show "fst (execute e r s) = errorResponse r err
          \<and> resp_content (fst (execute e r s)) = []
          \<and> resp_error (fst (execute e r s)) = Some (error_message ''Unknown error occurred'' err)
          \<and> events (snd (execute e r s)) = events s @ [RequestStarted r, RequestEnded (req_id r)]"
      by (simp add: execute_split errorResponse_simps execute_begin_simps)
  qed
  from rid [where c'=c and s''=s'] rid [where c'="nextController s" and s''="snd (execute_begin r s)"]
    fin [where c'=c and s''=s'] ex
    execute_error_iff [where e=e and r=r and s=s] execute_finish_error_iff [where e=e and r=r and c=c and s=s']
  show ?thesis
    unfolding execute_split by blast
qed

theorem execute_always_responds_witness:
  "resp_error (fst (execute (scenario_env refusing) r1_gpt idle)) = Some ''OpenAI API error: Unauthorized''
   \<and> resp_content (fst (execute (scenario_env refusing) r1_gpt idle)) = []
   \<and> events (snd (execute (scenario_env refusing) r1_gpt idle)) = [RequestStarted r1_gpt, RequestEnded ''r1'']
   \<and> resp_error (fst (execute (scenario_env answering) r1 idle)) = None"
proof -
  note a = execute_always_responds [where e="scenario_env refusing" and r=r1_gpt and s=idle
      and c=0 and s'=idle]
  note b = execute_always_responds [where e="scenario_env answering" and r=r1 and s=idle
      and c=0 and s'=idle]
  from a scenario_refused [where c="nextController idle" and s=idle]
  have "fst (execute (scenario_env refusing) r1_gpt idle)
          = errorResponse r1_gpt (Error ''OpenAI API error: Unauthorized'')
        \<and> events (snd (execute (scenario_env refusing) r1_gpt idle))
            = events idle @ [RequestStarted r1_gpt, RequestEnded (req_id r1_gpt)]"
    by blast
  then have 1: "resp_error (fst (execute (scenario_env refusing) r1_gpt idle)) = Some ''OpenAI API error: Unauthorized''"
    and 2: "resp_content (fst (execute (scenario_env refusing) r1_gpt idle)) = []"
    and 3: "events (snd (execute (scenario_env refusing) r1_gpt idle)) = [RequestStarted r1_gpt, RequestEnded ''r1'']"
    by (simp_all add: errorResponse_simps error_message_def scenario_ids idle_def)
  from b have "resp_error (fst (execute (scenario_env answering) r1 idle)) \<noteq> None
        \<longleftrightarrow> (\<exists>err. modelAnswer (scenario_env answering) r1 (nextController idle) idle = Inl err)"
    by blast
  then have 4: "resp_error (fst (execute (scenario_env answering) r1 idle)) = None"
    unfolding scenario_answered by simp
  from 1 2 3 4 show ?thesis by blast
qed

text \<open>
Claim C4. \<open>executeTools\<close> returns one entry for each eligible tool, in order, whatever
  the tools do. For an eligible tool whose call throws, the entry has the message as its
  error and \<open>null\<close> as its result (and the duration 0), and the tool system has logged the
  failure with the time the call took. Whether the response of the request carries an
  error does not depend on the registered tools, their outcomes or the enabled list; and a
  response without an error carries the entries, failed ones included.
\<close>
theorem tool_failure_recorded:
  "map tr_name (fst (executeTools e r))
     = map tool_name (getToolsForRequest (env_enabledTools e) (env_tools e) r)
   \<and> (\<forall>t \<in> set (getToolsForRequest (env_enabledTools e) (env_tools e) r).
        \<forall>err. snd (tool_execute t (toolContext (env_cwd e) r)) = Inl err \<longrightarrow>
          \<lparr>tr_name = tool_name t, tr_result = JNull,
           tr_error = Some (error_message ''Tool execution failed'' err), tr_duration = 0\<rparr>
            \<in> set (fst (executeTools e r))
          \<and> ToolFailed (tool_name t) (req_id r) err (fst (tool_execute t (toolContext (env_cwd e) r)))
            \<in> set (snd (executeTools e r)))
   \<and> resp_error (fst (execute_finish (e\<lparr>env_tools := tools', env_enabledTools := enabled'\<rparr>) r c s))
       = resp_error (fst (execute_finish e r c s))
   \<and> (resp_error (fst (execute_finish e r c s)) = None \<longrightarrow>
        resp_tools (fst (execute_finish e r c s)) = Some (fst (executeTools e r)))"
proof -
  have names: "map tr_name (fst (executeTools e r))
     = map tool_name (getToolsForRequest (env_enabledTools e) (env_tools e) r)"
    by (simp add: executeTools_def runTools_names)
  have failed: "\<forall>t \<in> set (getToolsForRequest (env_enabledTools e) (env_tools e) r).
        \<forall>err. snd (tool_execute t (toolContext (env_cwd e) r)) = Inl err \<longrightarrow>
          \<lparr>tr_name = tool_name t, tr_result = JNull,
           tr_error = Some (error_message ''Tool execution failed'' err), tr_duration = 0\<rparr>
            \<in> set (fst (executeTools e r))
          \<and> ToolFailed (tool_name t) (req_id r) err (fst (tool_execute t (toolContext (env_cwd e) r)))
            \<in> set (snd (executeTools e r))"
    unfolding executeTools_def using runTools_failed by blast
  have "resp_error (fst (execute_finish (e\<lparr>env_tools := tools', env_enabledTools := enabled'\<rparr>) r c s)) \<noteq> None
        \<longleftrightarrow> resp_error (fst (execute_finish e r c s)) \<noteq> None"
    unfolding execute_finish_error_iff modelAnswer_tools ..
  moreover have "resp_error (fst (execute_finish e' r c s)) \<noteq> None \<Longrightarrow>
      resp_error (fst (execute_finish e' r c s))
        = (case modelAnswer e' r c s of Inl err \<Rightarrow> Some (error_message ''Unknown error occurred'' err)
           | Inr a \<Rightarrow> None)" for e'
    by (cases rule: execute_finish_cases [of e' s r c])
       (simp_all add: errorResponse_simps successResponse_simps)
  ultimately have indep: "resp_error (fst (execute_finish (e\<lparr>env_tools := tools', env_enabledTools := enabled'\<rparr>) r c s))
       = resp_error (fst (execute_finish e r c s))"
    unfolding modelAnswer_tools by (metis modelAnswer_tools)
  have tools: "resp_error (fst (execute_finish e r c s)) = None \<longrightarrow>
        resp_tools (fst (execute_finish e r c s)) = Some (fst (executeTools e r))"
    by (cases rule: execute_finish_cases [of e s r c])
       (simp_all add: errorResponse_simps successResponse_simps)
  from names failed indep tools show ?thesis by blast
qed

theorem tool_failure_recorded_witness:
  "\<lparr>tr_name = ''read_file'', tr_result = JNull, tr_error = Some ''path is required'',
     tr_duration = 0\<rparr> \<in> set (fst (executeTools (scenario_env answering) r1))
   \<and> ToolFailed ''read_file'' ''r1'' (Error ''path is required'') 3
        \<in> set (snd (executeTools (scenario_env answering) r1))
   \<and> resp_error (fst (execute_finish (scenario_env answering) r1 0 idle)) = None
   \<and> resp_tools (fst (execute_finish (scenario_env answering) r1 0 idle))
       = Some [\<lparr>tr_name = ''read_file'', tr_result = JNull, tr_error = Some ''path is required'',
                 tr_duration = 0\<rparr>,
               \<lparr>tr_name = ''run_terminal_command'', tr_result = JObj [(''exitCode'', JNum 0)],
                 tr_error = None, tr_duration = 7\<rparr>]"
proof -
  note t = tool_failure_recorded [where e="scenario_env answering" and r=r1 and c=0 and s=idle
      and tools'="[]" and enabled'=None]
  define reader where "reader = createFileReadTool (\<lambda>c. (3, Inl (Error ''path is required'')))"
  have debug: "req_type r1 = Debug" by (simp add: r1_def)
  have eligible: "reader \<in> set (getToolsForRequest (env_enabledTools (scenario_env answering))
      (env_tools (scenario_env answering)) r1)"
    by (simp add: scenario_tools_debug [OF debug] reader_def)
  have throws: "snd (tool_execute reader (toolContext (env_cwd (scenario_env answering)) r1))
      = Inl (Error ''path is required'')"
    and took: "fst (tool_execute reader (toolContext (env_cwd (scenario_env answering)) r1)) = 3"
    and name: "tool_name reader = ''read_file''"
    by (simp_all add: reader_def createFileReadTool_def)
  from t eligible throws
  have "\<lparr>tr_name = tool_name reader, tr_result = JNull,
          tr_error = Some (error_message ''Tool execution failed'' (Error ''path is required'')),
          tr_duration = 0\<rparr> \<in> set (fst (executeTools (scenario_env answering) r1))
        \<and> ToolFailed (tool_name reader) (req_id r1) (Error ''path is required'')
             (fst (tool_execute reader (toolContext (env_cwd (scenario_env answering)) r1)))
            \<in> set (snd (executeTools (scenario_env answering) r1))"
    by blast
  then have 1: "\<lparr>tr_name = ''read_file'', tr_result = JNull, tr_error = Some ''path is required'',
        tr_duration = 0\<rparr> \<in> set (fst (executeTools (scenario_env answering) r1))"
    and 2: "ToolFailed ''read_file'' ''r1'' (Error ''path is required'') 3
        \<in> set (snd (executeTools (scenario_env answering) r1))"
    unfolding took name by (simp_all add: error_message_def scenario_ids)
  have 3: "resp_error (fst (execute_finish (scenario_env answering) r1 0 idle)) = None"
    using execute_finish_error_iff [where e="scenario_env answering" and r=r1 and c=0 and s=idle]
    unfolding scenario_answered by simp
  with t have "resp_tools (fst (execute_finish (scenario_env answering) r1 0 idle))
      = Some (fst (executeTools (scenario_env answering) r1))"
    by blast
  then have 4: "resp_tools (fst (execute_finish (scenario_env answering) r1 0 idle))
       = Some [\<lparr>tr_name = ''read_file'', tr_result = JNull, tr_error = Some ''path is required'',
                 tr_duration = 0\<rparr>,
               \<lparr>tr_name = ''run_terminal_command'', tr_result = JObj [(''exitCode'', JNum 0)],
                 tr_error = None, tr_duration = 7\<rparr>]"
    by (simp add: scenario_executeTools [OF debug])
  from 1 2 3 4 show ?thesis by blast
qed

text \<open>
  Claim C5. The relevance of a candidate to a query is the number of query words that occur
  among the candidate's words, divided by the number of query words. Every result of a
  search has a relevance above 0.3, so at least 0.3; a stored entry passes the filter
  exactly when it is a knowledge or pattern entry whose relevance is above 0.3 (the
  comparison is strict). Against the stored sentence "I got a database connection error
  today", the query "database error" has relevance 1, both of its two words occurring, and
  the search returns the entry; the query "quantum physics" has relevance 0 and the search
  returns nothing.
\<close>

theorem relevance_search_threshold:
  "calculateRelevance sfy query content =
     of_nat (length (filter (\<lambda>w. w \<in> set (split_nonword (toLowerCase (contentText sfy content))))
                            (split_nonword (toLowerCase query))))
     / of_nat (length (split_nonword (toLowerCase query)))
   \<and> 0 < length (split_nonword (toLowerCase query))
   \<and> (\<forall>x \<in> set (searchRelevantKnowledge sfy ms query). 3 / 10 \<le> ke_relevance x)
   \<and> (\<forall>(key, entry) \<in> set (memory ms).
        \<lparr>ke_content = contentText sfy (me_content entry),
         ke_relevance = calculateRelevance sfy query (me_content entry),
         ke_source = md_source (me_metadata entry),
         ke_type = entry_type_str (me_type entry)\<rparr> \<in> set (searchMemoryEntries sfy ms query)
        \<longleftrightarrow> (me_type entry = Knowledge \<or> me_type entry = Pattern)
              \<and> 3 / 10 < calculateRelevance sfy query (me_content entry))
   \<and> calculateRelevance sfy ''database error'' (JStr ''I got a database connection error today'') = 1
   \<and> searchRelevantKnowledge sfy sentence_memory ''database error''
       = [\<lparr>ke_content = ''I got a database connection error today'', ke_relevance = 1,
           ke_source = ''conversation'', ke_type = ''knowledge''\<rparr>]
   \<and> calculateRelevance sfy ''quantum physics'' (JStr ''I got a database connection error today'') = 0
   \<and> searchRelevantKnowledge sfy sentence_memory ''quantum physics'' = []"
proof -
  have "\<forall>x \<in> set (searchRelevantKnowledge sfy ms query). 3 / 10 \<le> ke_relevance x"
    using search_results_relevance [of _ sfy ms query] by (simp add: less_imp_le)
  moreover have "\<forall>(key, entry) \<in> set (memory ms).
        \<lparr>ke_content = contentText sfy (me_content entry),
         ke_relevance = calculateRelevance sfy query (me_content entry),
         ke_source = md_source (me_metadata entry),
         ke_type = entry_type_str (me_type entry)\<rparr> \<in> set (searchMemoryEntries sfy ms query)
        \<longleftrightarrow> (me_type entry = Knowledge \<or> me_type entry = Pattern)
              \<and> 3 / 10 < calculateRelevance sfy query (me_content entry)"
    using entry_admitted_iff [of _ _ ms sfy query] by blast
  ultimately show ?thesis
    using relevance_fraction [of sfy query content] split_nonword_nonempty [of "toLowerCase query"]
      relevance_database_error [of sfy] search_database_error [of sfy]
      relevance_quantum_physics [of sfy] search_quantum_physics [of sfy]
    by blast
qed

theorem relevance_search_threshold_witness:
  "calculateRelevance (\<lambda>j. ''{}'') ''database error'' (me_content sentence_entry) = 2 / 2
   \<and> 3 / 10 \<le> ke_relevance \<lparr>ke_content = ''I got a database connection error today'',
                                ke_relevance = 1, ke_source = ''conversation'',
                                ke_type = ''knowledge''\<rparr>
   \<and> \<lparr>ke_content = ''I got a database connection error today'', ke_relevance = 1,
       ke_source = ''conversation'', ke_type = ''knowledge''\<rparr>
      \<in> set (searchMemoryEntries (\<lambda>j. ''{}'') sentence_memory ''database error'')
   \<and> searchRelevantKnowledge (\<lambda>j. ''{}'') sentence_memory ''quantum physics'' = []"
proof -
  note t = relevance_search_threshold [of "\<lambda>j. ''{}''" "''database error''"
      "me_content sentence_entry" sentence_memory]
  have stored: "(''knowledge_1'', sentence_entry) \<in> set (memory sentence_memory)"
    by (simp add: sentence_memory_def empty_memory_def)
  have content: "me_content sentence_entry = JStr ''I got a database connection error today''"
    by (simp add: sentence_entry_def)
  from t have rel: "calculateRelevance (\<lambda>j. ''{}'') ''database error''
      (JStr ''I got a database connection error today'') = 1"
    by (elim conjE)
  from t have results: "\<forall>x \<in> set (searchRelevantKnowledge (\<lambda>j. ''{}'') sentence_memory ''database error'').
      3 / 10 \<le> ke_relevance x"
    by (elim conjE)
  from t have found: "searchRelevantKnowledge (\<lambda>j. ''{}'') sentence_memory ''database error''
       = [\<lparr>ke_content = ''I got a database connection error today'', ke_relevance = 1,
           ke_source = ''conversation'', ke_type = ''knowledge''\<rparr>]"
    by (elim conjE)
  from t have none_found: "searchRelevantKnowledge (\<lambda>j. ''{}'') sentence_memory ''quantum physics'' = []"
    by (elim conjE)
  from t have admitted: "\<forall>(key, entry) \<in> set (memory sentence_memory).
        \<lparr>ke_content = contentText (\<lambda>j. ''{}'') (me_content entry),
         ke_relevance = calculateRelevance (\<lambda>j. ''{}'') ''database error'' (me_content entry),
         ke_source = md_source (me_metadata entry),
         ke_type = entry_type_str (me_type entry)\<rparr>
          \<in> set (searchMemoryEntries (\<lambda>j. ''{}'') sentence_memory ''database error'')
        \<longleftrightarrow> (me_type entry = Knowledge \<or> me_type entry = Pattern)
              \<and> 3 / 10 < calculateRelevance (\<lambda>j. ''{}'') ''database error'' (me_content entry)"
    by (elim conjE)
  have a: "3 / 10 \<le> ke_relevance \<lparr>ke_content = ''I got a database connection error today'',
      ke_relevance = 1, ke_source = ''conversation'', ke_type = ''knowledge''\<rparr>"
    using results unfolding found by simp
  from admitted stored have "\<lparr>ke_content = contentText (\<lambda>j. ''{}'') (me_content sentence_entry),
         ke_relevance = calculateRelevance (\<lambda>j. ''{}'') ''database error'' (me_content sentence_entry),
         ke_source = md_source (me_metadata sentence_entry),
         ke_type = entry_type_str (me_type sentence_entry)\<rparr>
          \<in> set (searchMemoryEntries (\<lambda>j. ''{}'') sentence_memory ''database error'')
        \<longleftrightarrow> (me_type sentence_entry = Knowledge \<or> me_type sentence_entry = Pattern)
              \<and> 3 / 10 < calculateRelevance (\<lambda>j. ''{}'') ''database error'' (me_content sentence_entry)"
    by blast
  then have b: "\<lparr>ke_content = ''I got a database connection error today'', ke_relevance = 1,
       ke_source = ''conversation'', ke_type = ''knowledge''\<rparr>
      \<in> set (searchMemoryEntries (\<lambda>j. ''{}'') sentence_memory ''database error'')"
    unfolding content rel by (simp add: sentence_entry_def contentText_def)
  show ?thesis
    unfolding content using rel a b none_found by (intro conjI) simp_all
qed

text \<open>
Claim C6. Let a preferred model name be given (a non-empty string: the source's test is
  \<open>if (preferredModel)\<close>) and let some provider's listing hold a model whose name equals the
  preferred name or contains it. Then the selection returns a model with such a name from
  a provider's listing, the first one in the order of the providers and of their listings,
  and makes it the current model; the result is the same for every task type, so the table
  of the request kinds plays no part. A call of \<open>execute\<close> for a request with this
  preference that gets an answer names this model and its provider in the response's
  metadata. In the scenario the preference "gpt-4o" selects model "gpt-4o" of provider
  "openai" for a debug request, whose kind alone selects "codellama".
\<close>
theorem preferred_model_selected:
  assumes "modelName \<noteq> []"
    and "p \<in> set ps" and "p_listModels p = Inr models"
    and "m0 \<in> set models" and "name_matches modelName m0"
  shows "\<exists>m. findModel ps modelName = Some m
           \<and> name_matches modelName m
           \<and> (\<exists>p' \<in> set ps. \<exists>models'. p_listModels p' = Inr models' \<and> m \<in> set models')
           \<and> (\<forall>tt cur. selectModel ps cur tt (Some modelName) = (Inr m, Some m))
           \<and> (\<forall>e r c s. env_providers e = ps \<and> req_model r = Some modelName \<longrightarrow>
                 orch_selectModel e (currentModel s) r = (Inr m, Some m)
                 \<and> (resp_error (fst (execute_finish e r c s)) = None \<longrightarrow>
                      map_option meta_model (resp_metadata (fst (execute_finish e r c s))) = Some (mi_name m)
                      \<and> map_option meta_provider (resp_metadata (fst (execute_finish e r c s)))
                          = Some (mi_provider m)))"
proof -
  from assms(2-5) have "findModel ps modelName \<noteq> None"
    unfolding findModel_None_iff by blast
  then obtain m where found: "findModel ps modelName = Some m" by blast
  note props = findModel_Some [OF found]
  have sel: "selectModel ps cur tt (Some modelName) = (Inr m, Some m)" for tt cur
    using selectModel_preferred [OF assms(1) found] .
  have orch: "orch_selectModel e (currentModel s) r = (Inr m, Some m)
       \<and> (resp_error (fst (execute_finish e r c s)) = None \<longrightarrow>
            map_option meta_model (resp_metadata (fst (execute_finish e r c s))) = Some (mi_name m)
            \<and> map_option meta_provider (resp_metadata (fst (execute_finish e r c s)))
                = Some (mi_provider m))"
    if "env_providers e = ps \<and> req_model r = Some modelName" for e r c s
  proof -
    from that sel have o: "orch_selectModel e (currentModel s) r = (Inr m, Some m)"
      by (simp add: orch_selectModel_def)
    then have "fst (orch_selectModel e (currentModel s) r) = Inr m" by simp
    from execute_finish_selected(1,2) [OF this] o show ?thesis by blast
  qed
  from found props sel orch show ?thesis by blast
qed

theorem preferred_model_selected_witness:
  "selectModel (env_providers (scenario_env answering)) None (taskType Debug) (Some ''gpt-4o'')
     = (Inr (openaiModel ''gpt-4o'' [''chat'', ''code'', ''instruction'', ''analysis''] 128000 (3 / 100000)),
        Some (openaiModel ''gpt-4o'' [''chat'', ''code'', ''instruction'', ''analysis''] 128000 (3 / 100000)))
   \<and> map_option meta_model (resp_metadata (fst (execute_finish (scenario_env answering) r1_gpt 0 idle)))
       = Some ''gpt-4o''
   \<and> map_option meta_provider (resp_metadata (fst (execute_finish (scenario_env answering) r1_gpt 0 idle)))
       = Some ''openai''
   \<and> fst (orch_selectModel (scenario_env answering) None r1)
       = Inr (hfModel ''codellama'' [''code'', ''chat'', ''instruction''] 16384)"
proof -
  define gpt where "gpt = openaiModel ''gpt-4o'' [''chat'', ''code'', ''instruction'', ''analysis''] 128000 (3 / 100000)"
  have nonempty: "''gpt-4o'' \<noteq> []" by simp
  have provider: "OpenAIProvider True answering \<in> set (env_providers (scenario_env answering))"
    by (simp add: scenario_env_def initializeProviders_def)
  have listing: "p_listModels (OpenAIProvider True answering)
      = Inr [gpt,
             openaiModel ''gpt-4-turbo'' [''chat'', ''code'', ''instruction'', ''analysis''] 128000 (1 / 100000),
             openaiModel ''gpt-3.5-turbo'' [''chat'', ''code'', ''instruction''] 16384 (2 / 1000000)]"
    by (simp add: OpenAIProvider_def gpt_def)
  have listed: "gpt \<in> set [gpt,
             openaiModel ''gpt-4-turbo'' [''chat'', ''code'', ''instruction'', ''analysis''] 128000 (1 / 100000),
             openaiModel ''gpt-3.5-turbo'' [''chat'', ''code'', ''instruction''] 16384 (2 / 1000000)]"
    by simp
  have matches: "name_matches ''gpt-4o'' gpt"
    by (simp add: name_matches_def gpt_def openaiModel_def)
  from preferred_model_selected [OF nonempty provider listing listed matches]
  obtain m where found: "findModel (env_providers (scenario_env answering)) ''gpt-4o'' = Some m"
    and sel: "\<forall>tt cur. selectModel (env_providers (scenario_env answering)) cur tt (Some ''gpt-4o'')
        = (Inr m, Some m)"
    and ex: "\<forall>e r c s. env_providers e = env_providers (scenario_env answering)
                \<and> req_model r = Some ''gpt-4o'' \<longrightarrow>
                 orch_selectModel e (currentModel s) r = (Inr m, Some m)
                 \<and> (resp_error (fst (execute_finish e r c s)) = None \<longrightarrow>
                      map_option meta_model (resp_metadata (fst (execute_finish e r c s))) = Some (mi_name m)
                      \<and> map_option meta_provider (resp_metadata (fst (execute_finish e r c s)))
                          = Some (mi_provider m))"
    by blast
  from found have m: "m = gpt"
    by (simp add: scenario_findModel_gpt gpt_def)
  have pref: "req_model r1_gpt = Some ''gpt-4o''"
    by (simp add: r1_gpt_def req_model_def)
  have ok: "resp_error (fst (execute_finish (scenario_env answering) r1_gpt 0 idle)) = None"
    using execute_finish_error_iff [where e="scenario_env answering" and r=r1_gpt and c=0 and s=idle]
    unfolding scenario_gpt_answered by simp
  from ex pref ok
  have "map_option meta_model (resp_metadata (fst (execute_finish (scenario_env answering) r1_gpt 0 idle)))
          = Some (mi_name m)
        \<and> map_option meta_provider (resp_metadata (fst (execute_finish (scenario_env answering) r1_gpt 0 idle)))
          = Some (mi_provider m)"
    by blast
  then have 2: "map_option meta_model (resp_metadata (fst (execute_finish (scenario_env answering) r1_gpt 0 idle)))
       = Some ''gpt-4o''"
    and 3: "map_option meta_provider (resp_metadata (fst (execute_finish (scenario_env answering) r1_gpt 0 idle)))
       = Some ''openai''"
    unfolding m by (simp_all add: gpt_def openaiModel_def)
  from sel have 1: "selectModel (env_providers (scenario_env answering)) None (taskType Debug) (Some ''gpt-4o'')
     = (Inr gpt, Some gpt)"
    unfolding m by blast
  have 4: "fst (orch_selectModel (scenario_env answering) None r1)
       = Inr (hfModel ''codellama'' [''code'', ''chat'', ''instruction''] 16384)"
    by (simp add: scenario_select_r1)
  from 1 2 3 4 show ?thesis unfolding gpt_def by blast
qed

text \<open>
  Claim C7. Let no preferred model be given (none, or the empty string), or let no listing
  hold a model that matches the given one. Then the selection goes through the names the
  fixed table gives for the task type, in order, and returns the model found for the first
  name that \<open>findModel\<close> finds in the providers' listings. If it finds none of the names,
  the selection returns the first model of \<open>getAvailableModels\<close>, the listings of the
  providers that report themselves available, one after the other in the providers'
  order; and if that list is empty it throws the error "No models available", leaving the
  current model as it was. The last conjunct is the table, for the six request kinds.
\<close>
theorem fallback_model_selection:
  assumes "preferredModel = None \<or> preferredModel = Some []
           \<or> (\<exists>n. preferredModel = Some n \<and> findModel ps n = None)"
  shows "(\<forall>pre n post m.
            preferredModels tt = pre @ n # post
            \<and> (\<forall>n' \<in> set pre. findModel ps n' = None) \<and> findModel ps n = Some m \<longrightarrow>
              fst (selectModel ps cur tt preferredModel) = Inr m)
   \<and> ((\<forall>n \<in> set (preferredModels tt). findModel ps n = None) \<longrightarrow>
         (\<forall>m rest. getAvailableModels ps = m # rest \<longrightarrow>
             fst (selectModel ps cur tt preferredModel) = Inr m)
         \<and> (getAvailableModels ps = [] \<longrightarrow>
             selectModel ps cur tt preferredModel = (Inl (Error ''No models available''), cur)))
   \<and> getAvailableModels ps =
       concat (map (\<lambda>p. case p_listModels p of Inr models \<Rightarrow> models | Inl e \<Rightarrow> [])
                   (filter (\<lambda>p. p_isAvailable p = Inr True) ps))
   \<and> map (\<lambda>ty. preferredModels (taskType ty)) [Chat, Command, Analysis, Refactor, Debug, Test]
       = [[''gpt-4o'', ''claude-3-5-sonnet'', ''gemini-pro'', ''codellama''],
          [''codellama'', ''starcoder'', ''deepseek-coder'', ''gpt-4o''],
          [''claude-3-5-sonnet'', ''gpt-4o'', ''gemini-pro'', ''codellama:13b''],
          [''codellama'', ''starcoder'', ''deepseek-coder'', ''gpt-4o''],
          [''codellama'', ''starcoder'', ''gpt-4o'', ''claude-3-5-sonnet''],
          [''codellama'', ''gpt-4o'', ''claude-3-5-sonnet'', ''starcoder'']]"
proof -
  note by_type = selectModel_fallback [OF assms, of cur tt]
  have a: "fst (selectModel ps cur tt preferredModel) = Inr m"
    if "preferredModels tt = pre @ n # post \<and> (\<forall>n' \<in> set pre. findModel ps n' = None)
        \<and> findModel ps n = Some m" for pre n post m
  proof -
    from that have "firstFound ps (preferredModels tt) = Some m"
      using firstFound_first [of "preferredModels tt" pre n post ps m] by blast
    then show ?thesis by (simp add: by_type selectModelByTaskType_def)
  qed
  have b: "(\<forall>m rest. getAvailableModels ps = m # rest \<longrightarrow>
             fst (selectModel ps cur tt preferredModel) = Inr m)
         \<and> (getAvailableModels ps = [] \<longrightarrow>
             selectModel ps cur tt preferredModel = (Inl (Error ''No models available''), cur))"
    if none: "\<forall>n \<in> set (preferredModels tt). findModel ps n = None"
  proof -
    from firstFound_none [OF none] have ff: "firstFound ps (preferredModels tt) = None" .
    then have 1: "\<forall>m rest. getAvailableModels ps = m # rest \<longrightarrow>
             fst (selectModel ps cur tt preferredModel) = Inr m"
      by (simp add: by_type selectModelByTaskType_def)
    have 2: "selectModel ps cur tt preferredModel = (Inl (Error ''No models available''), cur)"
      if "getAvailableModels ps = []"
    proof -
      from ff that have "fst (selectModel ps cur tt preferredModel) = Inl (Error ''No models available'')"
        by (simp add: by_type selectModelByTaskType_def)
      then show ?thesis
        using selectModel_failed_current [of ps cur tt preferredModel]
        by (cases "selectModel ps cur tt preferredModel") simp
    qed
    from 1 2 show ?thesis by blast
  qed
  from a b getAvailableModels_concat [of ps] preferredModels_table show ?thesis
    by blast
qed

theorem fallback_model_selection_witness:
  "fst (selectModel (env_providers (scenario_env answering)) None (taskType Debug) None)
     = Inr (hfModel ''codellama'' [''code'', ''chat'', ''instruction''] 16384)
   \<and> fst (selectModel [OllamaProvider True [''mistral''] refusing] None (taskType Chat) None)
       = Inr (ollamaModel ''mistral'')
   \<and> selectModel [PlaceholderProvider ''anthropic'' ''Anthropic''] None (taskType Chat) (Some ''gpt-4o'')
       = (Inl (Error ''No models available''), None)"
proof -
  have 1: "fst (selectModel (env_providers (scenario_env answering)) None (taskType Debug) None)
     = Inr (hfModel ''codellama'' [''code'', ''chat'', ''instruction''] 16384)"
  proof -
    have none: "(None :: string option) = None \<or> (None :: string option) = Some []
        \<or> (\<exists>n. (None :: string option) = Some n
              \<and> findModel (env_providers (scenario_env answering)) n = None)"
      by simp
    have table: "preferredModels (taskType Debug)
        = [] @ ''codellama'' # [''starcoder'', ''gpt-4o'', ''claude-3-5-sonnet'']"
      by (simp add: preferredModels_def taskModelMap_def)
    from fallback_model_selection [OF none, of "taskType Debug" None] table
      scenario_findModel_codellama [of answering]
    show ?thesis by (metis empty_iff list.set(1))
  qed
  have 2: "fst (selectModel [OllamaProvider True [''mistral''] refusing] None (taskType Chat) None)
       = Inr (ollamaModel ''mistral'')"
  proof -
    have none: "(None :: string option) = None \<or> (None :: string option) = Some []
        \<or> (\<exists>n. (None :: string option) = Some n
              \<and> findModel [OllamaProvider True [''mistral''] refusing] n = None)"
      by simp
    have unknown: "\<forall>n \<in> set (preferredModels (taskType Chat)).
        findModel [OllamaProvider True [''mistral''] refusing] n = None"
      by (simp add: preferredModels_def taskModelMap_def OllamaProvider_def ollamaModel_def
          name_matches_def)
    have avail: "getAvailableModels [OllamaProvider True [''mistral''] refusing]
        = ollamaModel ''mistral'' # []"
      by (simp add: OllamaProvider_def)
    from fallback_model_selection [OF none, of "taskType Chat" None] unknown avail
    show ?thesis by blast
  qed
  have 3: "selectModel [PlaceholderProvider ''anthropic'' ''Anthropic''] None (taskType Chat) (Some ''gpt-4o'')
       = (Inl (Error ''No models available''), None)"
  proof -
    have nomatch: "Some ''gpt-4o'' = None \<or> Some ''gpt-4o'' = Some []
        \<or> (\<exists>n. Some ''gpt-4o'' = Some n
              \<and> findModel [PlaceholderProvider ''anthropic'' ''Anthropic''] n = None)"
      by (simp add: PlaceholderProvider_def)
    have unknown: "\<forall>n \<in> set (preferredModels (taskType Chat)).
        findModel [PlaceholderProvider ''anthropic'' ''Anthropic''] n = None"
      by (simp add: PlaceholderProvider_def)
    have avail: "getAvailableModels [PlaceholderProvider ''anthropic'' ''Anthropic''] = []"
      by (simp add: PlaceholderProvider_def)
    from fallback_model_selection [OF nomatch, of "taskType Chat" None] unknown avail
    show ?thesis by blast
  qed
  from 1 2 3 show ?thesis by blast
qed

text \<open>
  Claim C8, as amended. For every request and every tool: \<open>getToolsForRequest\<close> selects
  the tool if and only if it is registered, its capabilities and the capabilities required
  for the request's kind have an element in common, and, if a non-empty enabled list is
  configured, the tool's name is in that list. So with a non-empty list a tool outside it
  is not selected whatever its capabilities, and a tool inside it still needs a matching
  capability. A configured list that is empty restricts nothing: the selection is the one
  made without a list (the source's test is \<open>enabledTools.length > 0\<close>).
\<close>
theorem tool_eligibility:
  "(t \<in> set (getToolsForRequest enabledConfig tools request) \<longleftrightarrow>
      t \<in> snd ` set tools
      \<and> set (tool_capabilities t) \<inter> set (requiredCapabilities (req_type request)) \<noteq> {}
      \<and> (\<forall>enabled. enabledConfig = Some enabled \<longrightarrow> enabled \<noteq> [] \<longrightarrow> tool_name t \<in> set enabled))
   \<and> getToolsForRequest (Some []) tools request = getToolsForRequest None tools request"
proof -
  have "t \<in> set (getToolsForRequest enabledConfig tools request) \<longleftrightarrow>
      t \<in> snd ` set tools
      \<and> set (tool_capabilities t) \<inter> set (requiredCapabilities (req_type request)) \<noteq> {}
      \<and> (\<forall>enabled. enabledConfig = Some enabled \<longrightarrow> enabled \<noteq> [] \<longrightarrow> tool_name t \<in> set enabled)"
    by (cases enabledConfig)
       (auto simp: getToolsForRequest_def capabilities_match_iff arr_includes_def)
  moreover have "getToolsForRequest (Some []) tools request = getToolsForRequest None tools request"
    by (simp add: getToolsForRequest_def)
  ultimately show ?thesis by blast
qed

theorem tool_eligibility_witness:
  "createTerminalCommandTool (\<lambda>c. (7, Inr (JObj [(''exitCode'', JNum 0)])))
     \<in> set (getToolsForRequest (Some [''run_terminal_command'', ''database_query'']) scenario_tools r1)
   \<and> createFileReadTool (\<lambda>c. (3, Inl (Error ''path is required'')))
     \<notin> set (getToolsForRequest (Some [''run_terminal_command'', ''database_query'']) scenario_tools r1)
   \<and> createDatabaseQueryTool (\<lambda>c. (1, Inr JNull))
     \<notin> set (getToolsForRequest (Some [''run_terminal_command'', ''database_query'']) scenario_tools r1)
   \<and> createFileReadTool (\<lambda>c. (3, Inl (Error ''path is required'')))
     \<in> set (getToolsForRequest None scenario_tools r1)
   \<and> createFileReadTool (\<lambda>c. (3, Inl (Error ''path is required'')))
     \<in> set (getToolsForRequest (Some []) scenario_tools r1)
   \<and> requiredCapabilities (req_type r1) = [''debug'', ''code'', ''terminal'', ''analysis'', ''general'']"
proof -
  note iff = tool_eligibility [THEN conjunct1]
  have reg: "createTerminalCommandTool (\<lambda>c. (7, Inr (JObj [(''exitCode'', JNum 0)]))) \<in> snd ` set scenario_tools"
    "createFileReadTool (\<lambda>c. (3, Inl (Error ''path is required''))) \<in> snd ` set scenario_tools"
    by (simp_all add: scenario_tools_def registerTool_def createTerminalCommandTool_def
        createFileReadTool_def createDatabaseQueryTool_def)
  have req: "requiredCapabilities (req_type r1) = [''debug'', ''code'', ''terminal'', ''analysis'', ''general'']"
    by (simp add: r1_def)
  have 1: "createTerminalCommandTool (\<lambda>c. (7, Inr (JObj [(''exitCode'', JNum 0)])))
     \<in> set (getToolsForRequest (Some [''run_terminal_command'', ''database_query'']) scenario_tools r1)"
    unfolding iff req using reg(1) by (simp add: createTerminalCommandTool_def)
  have 2: "createFileReadTool (\<lambda>c. (3, Inl (Error ''path is required'')))
     \<notin> set (getToolsForRequest (Some [''run_terminal_command'', ''database_query'']) scenario_tools r1)"
    unfolding iff req by (simp add: createFileReadTool_def)
  have 3: "createDatabaseQueryTool (\<lambda>c. (1, Inr JNull))
     \<notin> set (getToolsForRequest (Some [''run_terminal_command'', ''database_query'']) scenario_tools r1)"
    unfolding iff req by (simp add: createDatabaseQueryTool_def)
  have 4: "createFileReadTool (\<lambda>c. (3, Inl (Error ''path is required'')))
     \<in> set (getToolsForRequest None scenario_tools r1)"
    unfolding iff req using reg(2) by (simp add: createFileReadTool_def)
  have 5: "createFileReadTool (\<lambda>c. (3, Inl (Error ''path is required'')))
     \<in> set (getToolsForRequest (Some []) scenario_tools r1)"
    using 4 unfolding tool_eligibility [THEN conjunct2] .
  from 1 2 3 4 5 req show ?thesis by blast
qed

text \<open>
  The claim as it is written fails where the configured list is empty: the file tool,
  which no list names, is selected for the debug request \<open>r1\<close>.
\<close>

theorem empty_enabled_list_counterexample:
  "createFileReadTool (\<lambda>c. (3, Inl (Error ''path is required'')))
     \<in> set (getToolsForRequest (Some []) scenario_tools r1)
   \<and> tool_name (createFileReadTool (\<lambda>c. (3, Inl (Error ''path is required''))))
     \<notin> set ([] :: string list)"
  by (simp add: getToolsForRequest_def scenario_tools_def registerTool_def
      createFileReadTool_def createTerminalCommandTool_def createDatabaseQueryTool_def
      toolCapabilitiesMatchRequest_def arr_includes_def r1_def)

text \<open>
  Claim C9. A response that carries an error carries nothing else: its id is the request's
  id followed by "_error", its content is empty, and its tool results and metadata are
  absent. This holds also when the model call fails after the eligible tools have run:
  the tool system's log then shows their executions, completed ones included, and the
  response does not.
\<close>
theorem error_response_bare:
  "(resp_error (fst (execute_finish e r c s)) \<noteq> None \<longrightarrow>
      resp_id (fst (execute_finish e r c s)) = req_id r @ ''_error''
      \<and> resp_requestId (fst (execute_finish e r c s)) = req_id r
      \<and> resp_content (fst (execute_finish e r c s)) = []
      \<and> resp_tools (fst (execute_finish e r c s)) = None
      \<and> resp_metadata (fst (execute_finish e r c s)) = None)
   \<and> (\<forall>model err.
        fst (orch_selectModel e (currentModel s) r) = Inr model
        \<and> modelCall e r c s model = Inl err \<longrightarrow>
          fst (execute_finish e r c s) = errorResponse r err
          \<and> resp_tools (fst (execute_finish e r c s)) = None
          \<and> toolLog (snd (execute_finish e r c s)) = toolLog s @ snd (executeTools e r))"
proof -
  have a: "resp_error (fst (execute_finish e r c s)) \<noteq> None \<longrightarrow>
      resp_id (fst (execute_finish e r c s)) = req_id r @ ''_error''
      \<and> resp_requestId (fst (execute_finish e r c s)) = req_id r
      \<and> resp_content (fst (execute_finish e r c s)) = []
      \<and> resp_tools (fst (execute_finish e r c s)) = None
      \<and> resp_metadata (fst (execute_finish e r c s)) = None"
    by (cases rule: execute_finish_cases [of e s r c])
       (simp_all add: errorResponse_simps successResponse_simps)
  have b: "fst (execute_finish e r c s) = errorResponse r err
          \<and> resp_tools (fst (execute_finish e r c s)) = None
          \<and> toolLog (snd (execute_finish e r c s)) = toolLog s @ snd (executeTools e r)"
    if "fst (orch_selectModel e (currentModel s) r) = Inr model"
      and "modelCall e r c s model = Inl err" for model err
  proof -
    from that(1) obtain cur where "orch_selectModel e (currentModel s) r = (Inr model, cur)"
      by (cases "orch_selectModel e (currentModel s) r") simp
    from execute_finish_call_failed [OF this that(2)] show ?thesis
      by (simp add: errorResponse_simps execute_finally_simps)
  qed
  from a b show ?thesis by blast
qed

theorem error_response_bare_witness:
  "resp_tools (fst (execute_finish (scenario_env refusing) r1_gpt 0 idle)) = None
   \<and> resp_metadata (fst (execute_finish (scenario_env refusing) r1_gpt 0 idle)) = None
   \<and> resp_content (fst (execute_finish (scenario_env refusing) r1_gpt 0 idle)) = []
   \<and> resp_error (fst (execute_finish (scenario_env refusing) r1_gpt 0 idle))
       = Some ''OpenAI API error: Unauthorized''
   \<and> toolLog (snd (execute_finish (scenario_env refusing) r1_gpt 0 idle))
       = [ToolExecuting ''read_file'' ''r1'',
          ToolFailed ''read_file'' ''r1'' (Error ''path is required'') 3,
          ToolExecuting ''run_terminal_command'' ''r1'',
          ToolCompleted ''run_terminal_command'' ''r1'' 7]"
proof -
  note t = error_response_bare [where e="scenario_env refusing" and r=r1_gpt and c=0 and s=idle]
  have debug: "req_type r1_gpt = Debug" by (simp add: r1_gpt_def r1_def)
  have sel: "fst (orch_selectModel (scenario_env refusing) (currentModel idle) r1_gpt)
      = Inr (openaiModel ''gpt-4o'' [''chat'', ''code'', ''instruction'', ''analysis''] 128000 (3 / 100000))"
    by (simp add: scenario_select_r1_gpt)
  have call: "modelCall (scenario_env refusing) r1_gpt 0 idle
      (openaiModel ''gpt-4o'' [''chat'', ''code'', ''instruction'', ''analysis''] 128000 (3 / 100000))
       = Inl (Error ''OpenAI API error: Unauthorized'')"
    by (simp add: scenario_call_gpt refusing_def)
  from t sel call
  have "fst (execute_finish (scenario_env refusing) r1_gpt 0 idle)
          = errorResponse r1_gpt (Error ''OpenAI API error: Unauthorized'')
        \<and> resp_tools (fst (execute_finish (scenario_env refusing) r1_gpt 0 idle)) = None
        \<and> toolLog (snd (execute_finish (scenario_env refusing) r1_gpt 0 idle))
            = toolLog idle @ snd (executeTools (scenario_env refusing) r1_gpt)"
    by blast
  then show ?thesis
    by (simp add: errorResponse_simps error_message_def scenario_executeTools [OF debug]
        scenario_ids idle_def)
qed

text \<open>
  Claim C10. When the response of \<open>execute\<close> carries an error, the memory system is
  exactly what it was before the call: the conversation history of the request's id and the
  stored knowledge are unchanged. The failure may be a cancellation: a model call that
  fails because the signal is aborted is one. \<open>storeInteraction\<close> runs on the path without
  a failure only, where the history of the id gains the user's and the assistant's
  message.
\<close>
theorem failure_persists_nothing:
  "(resp_error (fst (execute_finish e r c s)) \<noteq> None \<longrightarrow>
      mem (snd (execute_finish e r c s)) = mem s
      \<and> getConversationHistory (mem (snd (execute_finish e r c s))) (req_id r)
          = getConversationHistory (mem s) (req_id r)
      \<and> memory (mem (snd (execute_finish e r c s))) = memory (mem s))
   \<and> (resp_error (fst (execute e r s)) \<noteq> None \<longrightarrow> mem (snd (execute e r s)) = mem s)
   \<and> (resp_error (fst (execute_finish e r c s)) = None \<longrightarrow>
        getConversationHistory (mem (snd (execute_finish e r c s))) (req_id r)
          = getConversationHistory (mem s) (req_id r)
            @ [\<lparr>cm_role = User, cm_content = req_content r, cm_timestamp = env_now e\<rparr>,
               \<lparr>cm_role = Assistant, cm_content = resp_content (fst (execute_finish e r c s)),
                cm_timestamp = env_now e\<rparr>])"
proof -
  have a: "resp_error (fst (execute_finish e r c' s')) \<noteq> None \<longrightarrow>
      mem (snd (execute_finish e r c' s')) = mem s'" for c' s'
    by (cases rule: execute_finish_cases [of e s' r c'])
       (simp_all add: errorResponse_simps successResponse_simps execute_finally_simps)
  have b: "resp_error (fst (execute e r s)) \<noteq> None \<longrightarrow> mem (snd (execute e r s)) = mem s"
    using a [of "nextController s" "snd (execute_begin r s)"]
    by (simp add: execute_split execute_begin_simps)
  have d: "resp_error (fst (execute_finish e r c s)) = None \<longrightarrow>
        getConversationHistory (mem (snd (execute_finish e r c s))) (req_id r)
          = getConversationHistory (mem s) (req_id r)
            @ [\<lparr>cm_role = User, cm_content = req_content r, cm_timestamp = env_now e\<rparr>,
               \<lparr>cm_role = Assistant, cm_content = resp_content (fst (execute_finish e r c s)),
                cm_timestamp = env_now e\<rparr>]"
    by (cases rule: execute_finish_cases [of e s r c])
       (simp_all add: errorResponse_simps successResponse_simps execute_finally_simps
          getConversationHistory_storeInteraction)
  from a [of c s] b d show ?thesis by simp
qed

theorem failure_persists_nothing_witness:
  "mem (snd (execute (scenario_env refusing) r1_gpt idle)) = empty_memory
   \<and> mem (snd (execute_finish (scenario_env answering) r1_gpt 0
                 (cancel ''r1'' (snd (execute_begin r1_gpt idle))))) = empty_memory
   \<and> getConversationHistory (mem (snd (execute_finish (scenario_env answering) r1 0 idle))) ''r1''
       = [\<lparr>cm_role = User, cm_content = ''fix null pointer'', cm_timestamp = 1000\<rparr>,
          \<lparr>cm_role = Assistant,
           cm_content = resp_content (fst (execute_finish (scenario_env answering) r1 0 idle)),
           cm_timestamp = 1000\<rparr>]"
proof -
  note a = failure_persists_nothing [where e="scenario_env refusing" and r=r1_gpt and s=idle
      and c=0]
  note b = failure_persists_nothing [where e="scenario_env answering" and r=r1_gpt
      and s="cancel ''r1'' (snd (execute_begin r1_gpt idle))" and c=0]
  note d = failure_persists_nothing [where e="scenario_env answering" and r=r1 and s=idle and c=0]
  have f1: "resp_error (fst (execute (scenario_env refusing) r1_gpt idle)) \<noteq> None"
    unfolding execute_error_iff scenario_refused by blast
  have f2: "resp_error (fst (execute_finish (scenario_env answering) r1_gpt 0
      (cancel ''r1'' (snd (execute_begin r1_gpt idle))))) \<noteq> None"
    unfolding execute_finish_error_iff scenario_cancelled by blast
  have ok: "resp_error (fst (execute_finish (scenario_env answering) r1 0 idle)) = None"
    using execute_finish_error_iff [where e="scenario_env answering" and r=r1 and c=0 and s=idle]
    unfolding scenario_answered by simp
  have m: "mem (cancel ''r1'' (snd (execute_begin r1_gpt idle))) = empty_memory"
    by (simp add: cancel_def execute_begin_def Let_def idle_def split: option.splits)
  from a f1 have 1: "mem (snd (execute (scenario_env refusing) r1_gpt idle)) = empty_memory"
    by (simp add: idle_def)
  from b f2 m have 2: "mem (snd (execute_finish (scenario_env answering) r1_gpt 0
      (cancel ''r1'' (snd (execute_begin r1_gpt idle))))) = empty_memory"
    by simp
  from d ok have 3: "getConversationHistory (mem (snd (execute_finish (scenario_env answering) r1 0 idle))) ''r1''
       = [\<lparr>cm_role = User, cm_content = ''fix null pointer'', cm_timestamp = 1000\<rparr>,
          \<lparr>cm_role = Assistant,
           cm_content = resp_content (fst (execute_finish (scenario_env answering) r1 0 idle)),
           cm_timestamp = 1000\<rparr>]"
    by (simp add: scenario_ids idle_def empty_memory_def getConversationHistory_def r1_def
        scenario_env_def)
  from 1 2 3 show ?thesis by blast
qed

end
